theory Spec2Isabelle
  imports Complex_Main "HOL-Library.Char_ord" "HOL-Library.List_Lexorder"
begin

section \<open>Errors raised by the interpreter and the array framework\<close>

datatype py_error =
    ValueError
  | TypeError
  | IndexError
  | NameError string
  | TracerBoolConversionError
  | TracerIntegerConversionError

section \<open>Arrays\<close>

text \<open>
  A one-dimensional array is the list of its elements. A two-dimensional array of shape
  \<open>(B, n)\<close> carries its number of columns, so that the shape \<open>(0, n)\<close> exists as it
  does in the framework. The elements are of any type \<open>'a\<close>, the 32-bit floats of the
  notebook. The arithmetic of the framework is not part of the repository: the number
  that \<open>jnp.dot\<close> returns for two vectors of the same length, the product of two
  elements and the number that \<open>jnp.sum\<close> returns for a row are parameters of the
  model, written \<open>D\<close>, \<open>M\<close> and \<open>S\<close>. Nothing is assumed about them; in particular
  \<open>D\<close> need not be \<open>S\<close> of the products, as two float reductions need not round alike.
\<close>

datatype 'a array2 = Array2 (ncols: nat) (rows: "'a list list")

definition nrows :: "'a array2 \<Rightarrow> nat" where
  "nrows a = length (rows a)"


text \<open>\<open>xs[lo:hi]\<close> for \<open>0 \<le> lo\<close>: Python clamps a slice at the end of the array.\<close>

definition slice :: "nat \<Rightarrow> nat \<Rightarrow> 'a list \<Rightarrow> 'a list" where
  "slice lo hi xs = take (hi - lo) (drop lo xs)"

text \<open>\<open>xs[:, lo:hi]\<close>\<close>

definition slice_cols :: "nat \<Rightarrow> nat \<Rightarrow> 'a array2 \<Rightarrow> 'a array2" where
  "slice_cols lo hi a = Array2 (min (hi - lo) (ncols a - lo)) (map (slice lo hi) (rows a))"

text \<open>\<open>jnp.dot\<close> of two one-dimensional arrays: the lengths must agree.\<close>

definition dot :: "('a list \<Rightarrow> 'a list \<Rightarrow> 'a) \<Rightarrow> 'a list \<Rightarrow> 'a list \<Rightarrow> py_error + 'a" where
  "dot D a b = (if length a = length b then Inr (D a b) else Inl TypeError)"

text \<open>
  \<open>ws[i]\<close> with a Python integer \<open>i \<ge> 0\<close>: the framework clamps an index beyond the
  last row to the last row; an array without rows has nothing to return.
\<close>

definition get_row :: "'a array2 \<Rightarrow> nat \<Rightarrow> py_error + 'a list" where
  "get_row a i =
     (if nrows a = 0 then Inl IndexError else Inr (rows a ! min i (nrows a - 1)))"

text \<open>
  Broadcasting of one axis: equal extents, or one of them is 1 and is stretched.
\<close>

definition bdim :: "nat \<Rightarrow> nat \<Rightarrow> py_error + nat" where
  "bdim m n = (if m = n then Inr m else if m = 1 then Inr n else if n = 1 then Inr m
               else Inl TypeError)"

definition stretch :: "nat \<Rightarrow> 'b list \<Rightarrow> 'b list" where
  "stretch n xs = (if length xs = n then xs else replicate n (hd xs))"

text \<open>\<open>a * b\<close> on two-dimensional arrays, elementwise with broadcasting.\<close>

definition mul2 :: "('a \<Rightarrow> 'a \<Rightarrow> 'a) \<Rightarrow> 'a array2 \<Rightarrow> 'a array2 \<Rightarrow> py_error + 'a array2" where
  "mul2 M a b =
     (case bdim (nrows a) (nrows b) of
        Inl e \<Rightarrow> Inl e
      | Inr r \<Rightarrow>
         (case bdim (ncols a) (ncols b) of
            Inl e \<Rightarrow> Inl e
          | Inr c \<Rightarrow>
             Inr (Array2 c
                   (map2 (\<lambda>ra rb. map2 M (stretch c ra) (stretch c rb))
                      (stretch r (rows a)) (stretch r (rows b))))))"

text \<open>\<open>jnp.sum(a, axis=1)\<close>\<close>

definition sum_axis1 :: "('a list \<Rightarrow> 'a) \<Rightarrow> 'a array2 \<Rightarrow> 'a list" where
  "sum_axis1 S a = map S (rows a)"

definition same_lengths :: "'a list list \<Rightarrow> bool" where
  "same_lengths out = list_all (\<lambda>r. length r = length (hd out)) out"

text \<open>
  \<open>jnp.stack(output)\<close> and \<open>jnp.stack(output, axis=1)\<close> of one-dimensional arrays:
  an empty list of arrays is refused (\<open>ValueError: Need at least one array to stack\<close>),
  and so are arrays of different shapes.
\<close>

definition stack0 :: "'a list list \<Rightarrow> py_error + 'a array2" where
  "stack0 out =
     (if out = [] then Inl ValueError
      else if same_lengths out then Inr (Array2 (length (hd out)) out)
      else Inl ValueError)"

definition stack1 :: "'a list list \<Rightarrow> py_error + 'a array2" where
  "stack1 out =
     (if out = [] then Inl ValueError
      else if same_lengths out
      then Inr (Array2 (length out) (map (\<lambda>j. map (\<lambda>c. c ! j) out) [0..<length (hd out)]))
      else Inl ValueError)"

section \<open>The convolution notebook\<close>

text \<open>
  The loop \<open>output = []; for i in r: output.append(body(i))\<close>, stopped by the first
  error that the body raises.
\<close>

fun for_append :: "('i \<Rightarrow> py_error + 'b) \<Rightarrow> 'i list \<Rightarrow> 'b list \<Rightarrow> py_error + 'b list" where
  "for_append body [] acc = Inr acc"
| "for_append body (i # is) acc =
     (case body i of Inl e \<Rightarrow> Inl e | Inr v \<Rightarrow> for_append body is (acc @ [v]))"

text \<open>
  \<^verbatim>\<open>
  def convolve(x, w):
      output = []
      for i in range(1, len(x)-1):
          output.append(jnp.dot(x[i-1:i+2], w))
      return jnp.array(output)
  \<close>
  \<open>range(1, len(x)-1)\<close> is empty when \<open>len(x) \<le> 2\<close>, as \<open>[1..<length x - 1]\<close> is.
\<close>

definition convolve :: "('a list \<Rightarrow> 'a list \<Rightarrow> 'a) \<Rightarrow> 'a list \<Rightarrow> 'a list \<Rightarrow> py_error + 'a list" where
  "convolve D x w = for_append (\<lambda>i. dot D (slice (i - 1) (i + 2) x) w) [1..<length x - 1] []"

text \<open>
  \<^verbatim>\<open>
  def manually_batched_convolve(xs, ws):
      output = []
      for i in range(xs.shape[0]):
          output.append(convolve(xs[i], ws[i]))
      return jnp.stack(output)
  \<close>
\<close>

definition manually_batched_convolve ::
  "('a list \<Rightarrow> 'a list \<Rightarrow> 'a) \<Rightarrow> 'a array2 \<Rightarrow> 'a array2 \<Rightarrow> py_error + 'a array2" where
  "manually_batched_convolve D xs ws =
     (case for_append
             (\<lambda>i. case get_row xs i of
                     Inl e \<Rightarrow> Inl e
                   | Inr x \<Rightarrow> (case get_row ws i of Inl e \<Rightarrow> Inl e | Inr w \<Rightarrow> convolve D x w))
             [0..<nrows xs] [] of
        Inl e \<Rightarrow> Inl e
      | Inr outp \<Rightarrow> stack0 outp)"

text \<open>
  \<^verbatim>\<open>
  def manually_vectorized_convolve(xs, ws):
      output = []
      for i in range(1, xs.shape[1]-1):
          output.append(jnp.sum(xs[:, i-1:i+2] * ws, axis=1))
      return jnp.stack(output, axis=1)
  \<close>
\<close>

definition manually_vectorized_convolve ::
  "('a \<Rightarrow> 'a \<Rightarrow> 'a) \<Rightarrow> ('a list \<Rightarrow> 'a) \<Rightarrow> 'a array2 \<Rightarrow> 'a array2 \<Rightarrow> py_error + 'a array2" where
  "manually_vectorized_convolve M S xs ws =
     (case for_append
             (\<lambda>i. case mul2 M (slice_cols (i - 1) (i + 2) xs) ws of
                     Inl e \<Rightarrow> Inl e
                   | Inr p \<Rightarrow> Inr (sum_axis1 S p))
             [1..<ncols xs - 1] [] of
        Inl e \<Rightarrow> Inl e
      | Inr outp \<Rightarrow> stack1 outp)"



text \<open>
  Exact arithmetic, for the examples: the dot product as the sum of the products. On
  the small integers of the notebook's example 32-bit floats compute the same numbers.
\<close>

definition exact_dot :: "int list \<Rightarrow> int list \<Rightarrow> int" where
  "exact_dot a b = sum_list (map2 (*) a b)"

section \<open>The straight-through estimator\<close>

text \<open>
  The value of a floating-point scalar: a finite number, an infinity or not-a-number.
  On the special values addition, subtraction and rounding follow IEEE 754. What they
  return on finite numbers (with their rounding, overflow and signed zeros) is the
  arithmetic of the framework and a parameter of the model, as is the zero that
  differentiation puts for a cut derivative.
\<close>

datatype 'a fval = Fin 'a | PInf | NInf | NaN

record 'a float_ops =
  fin_add :: "'a \<Rightarrow> 'a \<Rightarrow> 'a fval"
  fin_sub :: "'a \<Rightarrow> 'a \<Rightarrow> 'a fval"
  fin_round :: "'a \<Rightarrow> 'a fval"
  fin_zero :: 'a

fun fadd :: "'a float_ops \<Rightarrow> 'a fval \<Rightarrow> 'a fval \<Rightarrow> 'a fval" where
  "fadd F NaN _ = NaN"
| "fadd F _ NaN = NaN"
| "fadd F PInf NInf = NaN"
| "fadd F NInf PInf = NaN"
| "fadd F PInf _ = PInf"
| "fadd F _ PInf = PInf"
| "fadd F NInf _ = NInf"
| "fadd F _ NInf = NInf"
| "fadd F (Fin a) (Fin b) = fin_add F a b"

fun fsub :: "'a float_ops \<Rightarrow> 'a fval \<Rightarrow> 'a fval \<Rightarrow> 'a fval" where
  "fsub F NaN _ = NaN"
| "fsub F _ NaN = NaN"
| "fsub F PInf PInf = NaN"
| "fsub F NInf NInf = NaN"
| "fsub F PInf _ = PInf"
| "fsub F _ PInf = NInf"
| "fsub F NInf _ = NInf"
| "fsub F _ NInf = PInf"
| "fsub F (Fin a) (Fin b) = fin_sub F a b"

text \<open>\<open>jnp.round\<close>: an infinity and not-a-number round to themselves.\<close>

fun fround :: "'a float_ops \<Rightarrow> 'a fval \<Rightarrow> 'a fval" where
  "fround F (Fin a) = fin_round F a"
| "fround F v = v"

text \<open>
  A value under differentiation is a pair of the value of the forward pass and the
  derivative carried along with it. \<open>jax.lax.stop_gradient\<close> is the identity on the
  value and cuts the derivative; \<open>jnp.round\<close> has derivative zero.
\<close>

record 'a dual =
  primal :: "'a fval"
  tangent :: "'a fval"

definition dadd :: "'a float_ops \<Rightarrow> 'a dual \<Rightarrow> 'a dual \<Rightarrow> 'a dual" where
  "dadd F a b =
     \<lparr>primal = fadd F (primal a) (primal b), tangent = fadd F (tangent a) (tangent b)\<rparr>"

definition dsub :: "'a float_ops \<Rightarrow> 'a dual \<Rightarrow> 'a dual \<Rightarrow> 'a dual" where
  "dsub F a b =
     \<lparr>primal = fsub F (primal a) (primal b), tangent = fsub F (tangent a) (tangent b)\<rparr>"

definition stop_gradient :: "'a float_ops \<Rightarrow> 'a dual \<Rightarrow> 'a dual" where
  "stop_gradient F a = \<lparr>primal = primal a, tangent = Fin (fin_zero F)\<rparr>"

definition jnp_round :: "'a float_ops \<Rightarrow> 'a dual \<Rightarrow> 'a dual" where
  "jnp_round F a = \<lparr>primal = fround F (primal a), tangent = Fin (fin_zero F)\<rparr>"

text \<open>
  \<^verbatim>\<open>
  def f(x):
      return jnp.round(x)

  def straight_through_f(x):
      #create an exactly-zero expression with Sternbenz lemma that
      #an exactly-one gradient

      zero = x - jax.lax.stop_gradient(x)
      return zero + jax.lax.stop_gradient(f(x))
  \<close>
  The function \<open>f\<close> of this cell is \<open>f_round\<close> here.
\<close>

definition f_round :: "'a float_ops \<Rightarrow> 'a dual \<Rightarrow> 'a dual" where
  "f_round F x = jnp_round F x"

definition straight_through_zero :: "'a float_ops \<Rightarrow> 'a dual \<Rightarrow> 'a dual" where
  "straight_through_zero F x = dsub F x (stop_gradient F x)"

definition straight_through_f :: "'a float_ops \<Rightarrow> 'a dual \<Rightarrow> 'a dual" where
  "straight_through_f F x =
     (let zero = straight_through_zero F x
      in dadd F zero (stop_gradient F (f_round F x)))"

section \<open>Pytrees\<close>

text \<open>
  Python values as the pytree functions of the framework see them: lists, tuples,
  dictionaries and \<open>None\<close> are the nodes of a tree, every other object is a leaf. A
  dictionary is the list of its items in insertion order, with distinct keys.
\<close>

datatype pyval =
    PyInt int
  | PyStr string
  | PyNone
  | PyList "pyval list"
  | PyTuple "pyval list"
  | PyDict "(string \<times> pyval) list"

fun is_leaf :: "pyval \<Rightarrow> bool" where
  "is_leaf (PyInt _) = True"
| "is_leaf (PyStr _) = True"
| "is_leaf _ = False"

fun is_dict :: "pyval \<Rightarrow> bool" where
  "is_dict (PyDict _) = True"
| "is_dict _ = False"

fun items :: "pyval \<Rightarrow> (string \<times> pyval) list" where
  "items (PyDict kvs) = kvs"
| "items _ = []"

definition keys :: "pyval \<Rightarrow> string list" where
  "keys d = map fst (items d)"

text \<open>
  What the other arguments of \<open>jax.tree.map\<close> must look like at a node of the first
  tree: the same kind of node with as many children (a list or tuple), or a dictionary
  with the same keys. The functions return the children that correspond to the children
  of the first tree, or nothing when the structures do not match. At a \<open>None\<close> of the
  first tree, a node without children, the framework does not look at the other trees.
\<close>

fun list_children :: "nat \<Rightarrow> pyval \<Rightarrow> pyval list option" where
  "list_children n (PyList cs) = (if length cs = n then Some cs else None)"
| "list_children n _ = None"

fun tuple_children :: "nat \<Rightarrow> pyval \<Rightarrow> pyval list option" where
  "tuple_children n (PyTuple cs) = (if length cs = n then Some cs else None)"
| "tuple_children n _ = None"

fun dict_children :: "string list \<Rightarrow> pyval \<Rightarrow> pyval list option" where
  "dict_children ks (PyDict kvs) =
     (if distinct (map fst kvs) \<and> set (map fst kvs) = set ks
      then Some (map (\<lambda>k. the (map_of kvs k)) ks) else None)"
| "dict_children ks _ = None"

fun those_all :: "'a option list \<Rightarrow> 'a list option" where
  "those_all [] = Some []"
| "those_all (None # _) = None"
| "those_all (Some x # xs) = (case those_all xs of None \<Rightarrow> None | Some ys \<Rightarrow> Some (x # ys))"

text \<open>
  \<open>jax.tree.map(f, tree, *rest)\<close>: \<open>f\<close> is applied to each leaf of \<open>tree\<close> together with
  what stands at the same place in each tree of \<open>rest\<close>, and the results are put back
  into the structure of \<open>tree\<close>. A tree of \<open>rest\<close> whose structure does not extend that
  of \<open>tree\<close> raises \<open>ValueError\<close>. The second function maps the children of a node, each
  with the list of its counterparts; the third the items of a dictionary.
\<close>

fun tree_map :: "(pyval list \<Rightarrow> pyval) \<Rightarrow> pyval \<Rightarrow> pyval list \<Rightarrow> py_error + pyval"
  and tree_map_children ::
    "(pyval list \<Rightarrow> pyval) \<Rightarrow> pyval list \<Rightarrow> pyval list list \<Rightarrow> py_error + pyval list"
  and tree_map_items ::
    "(pyval list \<Rightarrow> pyval) \<Rightarrow> (string \<times> pyval) list \<Rightarrow> pyval list list
       \<Rightarrow> py_error + (string \<times> pyval) list"
where
  "tree_map f (PyInt i) rest = Inr (f (PyInt i # rest))"
| "tree_map f (PyStr s) rest = Inr (f (PyStr s # rest))"
| "tree_map f PyNone rest = Inr PyNone"
| "tree_map f (PyList ts) rest =
     (case those_all (map (list_children (length ts)) rest) of
        None \<Rightarrow> Inl ValueError
      | Some css \<Rightarrow>
         (case tree_map_children f ts css of Inl e \<Rightarrow> Inl e | Inr vs \<Rightarrow> Inr (PyList vs)))"
| "tree_map f (PyTuple ts) rest =
     (case those_all (map (tuple_children (length ts)) rest) of
        None \<Rightarrow> Inl ValueError
      | Some css \<Rightarrow>
         (case tree_map_children f ts css of Inl e \<Rightarrow> Inl e | Inr vs \<Rightarrow> Inr (PyTuple vs)))"
| "tree_map f (PyDict kvs) rest =
     (case those_all (map (dict_children (map fst kvs)) rest) of
        None \<Rightarrow> Inl ValueError
      | Some css \<Rightarrow>
         (case tree_map_items f kvs css of
            Inl e \<Rightarrow> Inl e
          | Inr kvs' \<Rightarrow> Inr (PyDict (sort_key fst kvs'))))"
| "tree_map_children f [] css = Inr []"
| "tree_map_children f (t # ts) css =
     (case tree_map f t (map hd css) of
        Inl e \<Rightarrow> Inl e
      | Inr v \<Rightarrow>
         (case tree_map_children f ts (map tl css) of
            Inl e \<Rightarrow> Inl e
          | Inr vs \<Rightarrow> Inr (v # vs)))"
| "tree_map_items f [] css = Inr []"
| "tree_map_items f ((k, t) # kvs) css =
     (case tree_map f t (map hd css) of
        Inl e \<Rightarrow> Inl e
      | Inr v \<Rightarrow>
         (case tree_map_items f kvs (map tl css) of
            Inl e \<Rightarrow> Inl e
          | Inr kvs' \<Rightarrow> Inr ((k, v) # kvs')))"

text \<open>
  \<^verbatim>\<open>
  def tree_transpose(list_of_trees):
      return jax.tree.map(lambda *xs: list(xs), *list_of_trees)
  \<close>
  With an empty list the call has no tree to map over and Python raises \<open>TypeError\<close>.
\<close>

definition tree_transpose :: "pyval list \<Rightarrow> py_error + pyval" where
  "tree_transpose list_of_trees =
     (case list_of_trees of
        [] \<Rightarrow> Inl TypeError
      | tree # rest \<Rightarrow> tree_map (\<lambda>xs. PyList xs) tree rest)"

section \<open>Tracing under just-in-time compilation\<close>

text \<open>
  While \<open>jit\<close> traces a function, an argument that is not declared static is an abstract
  value: its shape is known, its number is not. An array is the list of its elements,
  so an abstract array of shape \<open>(n,)\<close> is a list of \<open>n\<close> abstract elements.
\<close>

datatype 'a traced = Concrete 'a | Tracer

fun lift2 :: "('a \<Rightarrow> 'b \<Rightarrow> 'c) \<Rightarrow> 'a traced \<Rightarrow> 'b traced \<Rightarrow> 'c traced" where
  "lift2 h (Concrete a) (Concrete b) = Concrete (h a b)"
| "lift2 h _ _ = Tracer"

text \<open>
  The arithmetic on the numbers themselves (32-bit integers that wrap, 32-bit floats
  that round) is the framework's and a parameter of the model: the element that a
  Python literal becomes, sum, product, power, remainder and the two comparisons.
\<close>

record 'a arith =
  ar_lit :: "int \<Rightarrow> 'a"
  ar_add :: "'a \<Rightarrow> 'a \<Rightarrow> 'a"
  ar_mul :: "'a \<Rightarrow> 'a \<Rightarrow> 'a"
  ar_pow :: "'a \<Rightarrow> nat \<Rightarrow> 'a"
  ar_mod :: "'a \<Rightarrow> 'a \<Rightarrow> 'a"
  ar_less :: "'a \<Rightarrow> 'a \<Rightarrow> bool"
  ar_eq :: "'a \<Rightarrow> 'a \<Rightarrow> bool"

text \<open>
  Python converts a value to \<open>bool\<close> for \<open>if\<close>, \<open>while\<close>, \<open>and\<close> and \<open>or\<close>, and to an
  integer for \<open>range\<close>. An abstract value refuses both: the first raises
  \<open>TracerBoolConversionError\<close>, the second \<open>TracerIntegerConversionError\<close>.
\<close>

fun truth :: "bool traced \<Rightarrow> py_error + bool" where
  "truth (Concrete b) = Inr b"
| "truth Tracer = Inl TracerBoolConversionError"

fun as_index :: "int traced \<Rightarrow> py_error + int" where
  "as_index (Concrete n) = Inr n"
| "as_index Tracer = Inl TracerIntegerConversionError"

text \<open>
  \<open>x[i]\<close> with a Python integer \<open>i \<ge> 0\<close> on a one-dimensional array: the framework
  clamps an index beyond the last element to the last element; an empty array has
  nothing to return.
\<close>

definition get_item :: "'a list \<Rightarrow> nat \<Rightarrow> py_error + 'a" where
  "get_item x i = (if x = [] then Inl IndexError else Inr (x ! min i (length x - 1)))"

text \<open>
  A call of \<open>jit(f)\<close> traces \<open>f\<close> on abstract arguments; an error of the trace is the
  error of the call, and otherwise the compiled program returns what \<open>f\<close> computes on
  the numbers. An argument named in \<open>static_argnames\<close> keeps its number in the trace.
\<close>

definition jit :: "('a traced \<Rightarrow> py_error + 'b) \<Rightarrow> 'a \<Rightarrow> py_error + 'b" where
  "jit f x = (case f Tracer of Inl e \<Rightarrow> Inl e | Inr _ \<Rightarrow> f (Concrete x))"

definition jit_array :: "('a traced list \<Rightarrow> py_error + 'b) \<Rightarrow> 'a list \<Rightarrow> py_error + 'b" where
  "jit_array f xs =
     (case f (map (\<lambda>_. Tracer) xs) of Inl e \<Rightarrow> Inl e | Inr _ \<Rightarrow> f (map Concrete xs))"

definition jit_static :: "('a traced \<Rightarrow> py_error + 'b) \<Rightarrow> 'a \<Rightarrow> py_error + 'b" where
  "jit_static f x = f (Concrete x)"

definition jit_array_static ::
  "('a traced list \<Rightarrow> 'c traced \<Rightarrow> py_error + 'b) \<Rightarrow> 'a list \<Rightarrow> 'c \<Rightarrow> py_error + 'b" where
  "jit_array_static f xs n =
     (case f (map (\<lambda>_. Tracer) xs) (Concrete n) of
        Inl e \<Rightarrow> Inl e
      | Inr _ \<Rightarrow> f (map Concrete xs) (Concrete n))"

text \<open>The same call of \<open>jit\<close> without the static argument: \<open>n\<close> is abstract in the trace.\<close>

definition jit_array_traced ::
  "('a traced list \<Rightarrow> 'c traced \<Rightarrow> py_error + 'b) \<Rightarrow> 'a list \<Rightarrow> 'c \<Rightarrow> py_error + 'b" where
  "jit_array_traced f xs n =
     (case f (map (\<lambda>_. Tracer) xs) Tracer of
        Inl e \<Rightarrow> Inl e
      | Inr _ \<Rightarrow> f (map Concrete xs) (Concrete n))"

subsection \<open>The functions of the control-flow notebook\<close>

text \<open>
  The notebook reuses the names \<open>f\<close> and \<open>g\<close> from cell to cell; here each function has
  a name of its own.
  \<^verbatim>\<open>
  @jit
  def f(x):
      for i in range(3):
          x = 2*x
      return x
  \<close>
\<close>

definition f_double :: "'a arith \<Rightarrow> 'a traced \<Rightarrow> py_error + 'a traced" where
  "f_double A x = Inr (fold (\<lambda>i x. lift2 (ar_mul A) (Concrete (ar_lit A 2)) x) [0..<3] x)"

text \<open>
  \<^verbatim>\<open>
  @jit
  def g(x):
      y = 0.
      for i in range(x.shape[0]):
          y = y + x[i]
      return y
  \<close>
  The loop \<open>for i in r: y = y + x[i]\<close>:
\<close>

fun sum_loop :: "'a arith \<Rightarrow> 'a traced list \<Rightarrow> nat list \<Rightarrow> 'a traced \<Rightarrow> py_error + 'a traced" where
  "sum_loop A x [] y = Inr y"
| "sum_loop A x (i # is) y =
     (case get_item x i of
        Inl e \<Rightarrow> Inl e
      | Inr v \<Rightarrow> sum_loop A x is (lift2 (ar_add A) y v))"

definition g_sum :: "'a arith \<Rightarrow> 'a traced list \<Rightarrow> py_error + 'a traced" where
  "g_sum A x = sum_loop A x [0..<length x] (Concrete (ar_lit A 0))"

text \<open>
  The two cells that are commented out, and the cell that declares \<open>x\<close> static, branch
  on the value of the argument:
  \<^verbatim>\<open>
  def f(x):
      if x < 3:
          return 3. * x ** 2
      else:
          return -4 * x

  def g(x):
      return (x > 0) and (x < 3)
  \<close>
\<close>

definition f_branch :: "'a arith \<Rightarrow> 'a traced \<Rightarrow> py_error + 'a traced" where
  "f_branch A x =
     (case truth (lift2 (ar_less A) x (Concrete (ar_lit A 3))) of
        Inl e \<Rightarrow> Inl e
      | Inr b \<Rightarrow>
         if b then Inr (lift2 (ar_mul A) (Concrete (ar_lit A 3)) (lift2 (ar_pow A) x (Concrete 2)))
         else Inr (lift2 (ar_mul A) (Concrete (ar_lit A (- 4))) x))"

definition g_and :: "'a arith \<Rightarrow> 'a traced \<Rightarrow> py_error + bool traced" where
  "g_and A x =
     (case truth (lift2 (ar_less A) (Concrete (ar_lit A 0)) x) of
        Inl e \<Rightarrow> Inl e
      | Inr b \<Rightarrow>
         if b then Inr (lift2 (ar_less A) x (Concrete (ar_lit A 3)))
         else Inr (lift2 (ar_less A) (Concrete (ar_lit A 0)) x))"

text \<open>
  \<^verbatim>\<open>
  @jit
  def f(x):
    return x ** 2
  \<close>
  on an array.
\<close>

definition f_square :: "'a arith \<Rightarrow> 'a traced list \<Rightarrow> py_error + 'a traced list" where
  "f_square A x = Inr (map (\<lambda>v. lift2 (ar_pow A) v (Concrete 2)) x)"

text \<open>
  \<^verbatim>\<open>
  def f(x, n):
    y = 0.0
    for i in range(n):  # n is a runtime value
      y = y + x[i]
    return y

  f_jitted = jit(f, static_argnames='n')
  \<close>
\<close>

definition f_prefix :: "'a arith \<Rightarrow> 'a traced list \<Rightarrow> int traced \<Rightarrow> py_error + 'a traced" where
  "f_prefix A x n =
     (case as_index n of
        Inl e \<Rightarrow> Inl e
      | Inr k \<Rightarrow> sum_loop A x [0..<nat k] (Concrete (ar_lit A 0)))"

text \<open>
  \<^verbatim>\<open>
  @jit
  def jax_check_positive_even(x):
      is_even = x % 2 == 0
      return jnp.logical_and(is_even, x > 0)
  \<close>
\<close>

definition jax_check_positive_even :: "'a arith \<Rightarrow> 'a traced \<Rightarrow> py_error + bool traced" where
  "jax_check_positive_even A x =
     (let is_even = lift2 (ar_eq A) (lift2 (ar_mod A) x (Concrete (ar_lit A 2)))
                      (Concrete (ar_lit A 0))
      in Inr (lift2 (\<and>) is_even (lift2 (ar_less A) (Concrete (ar_lit A 0)) x)))"

text \<open>
  Exact arithmetic on the reals, for the examples: on the small whole numbers of the
  notebook's calls the floats of the framework compute the same.
\<close>

definition exact_arith :: "real arith" where
  "exact_arith =
     \<lparr>ar_lit = of_int, ar_add = (+), ar_mul = (*), ar_pow = (\<lambda>a n. a ^ n),
      ar_mod = (\<lambda>a b. a - b * of_int \<lfloor>a / b\<rfloor>), ar_less = (<), ar_eq = (=)\<rparr>"

section \<open>The notebooks as programs\<close>

text \<open>
  The code cells of a notebook, in the order of the file, each the list of its
  statements. The statements keep what the claims about the notebooks depend on: which
  names a statement binds, which names an expression reads and in which order, the calls
  with their arguments, and the nesting of loops, branches and function definitions.
  The matrix product \<open>a @ b\<close> is \<open>EMatMul\<close>, \<open>and\<close> and \<open>or\<close> are \<open>EBoolOp\<close>; the other
  operators, subscripts, displays and formatted strings are \<open>EOp\<close> with their
  subexpressions other than literals (the notebooks have no \<open>not\<close>, no conditional
  expression and no chained comparison); a literal is \<open>EConst\<close>, or \<open>EStr\<close> when it is a
  string that spells an identifier. A keyword argument is the pair of its name and its
  value at the same position of the two last lists of \<open>ECall\<close>; \<open>*args\<close> and
  \<open>**kwargs\<close> are their expressions, the latter under the name \<open>**\<close>. A line of
  IPython magic (\<open>%matplotlib\<close>, \<open>%%timeit\<close>) is \<open>SPass\<close>. Comments are not code: a
  cell that is commented out has no statement.
\<close>

datatype expr =
    EName string
  | EConst
  | EStr string
  | EAttr expr string
  | ECall expr "expr list" "string list" "expr list"
  | ELambda "string list" expr
  | EBoolOp "expr list"
  | EOp "expr list"
  | EMatMul expr expr
  | EComp "string list" expr expr

datatype stmt =
    SImport "string list"
  | SAssign "string list" expr
  | SStore expr expr
  | SAnn string expr
  | SExpr expr
  | SReturn expr
  | SPass
  | SFor "string list" expr "stmt list"
  | SWhile expr "stmt list"
  | SIf expr "stmt list" "stmt list"
  | SDef string "string list" "expr list" "stmt list"
  | SClass string "expr list" "expr list" "stmt list"

subsection \<open>Running the cells: which names are bound\<close>

text \<open>
  The names that the evaluation of an expression reads, in the order of evaluation.
  The body of a \<open>lambda\<close> is not evaluated where the \<open>lambda\<close> stands; the variable of a
  comprehension is local to it.
\<close>

fun loads :: "expr \<Rightarrow> string list" where
  "loads (EName x) = [x]"
| "loads EConst = []"
| "loads (EStr _) = []"
| "loads (EAttr e _) = loads e"
| "loads (ECall f args kn kv) = loads f @ concat (map loads args) @ concat (map loads kv)"
| "loads (ELambda ps b) = []"
| "loads (EBoolOp es) = concat (map loads es)"
| "loads (EOp es) = concat (map loads es)"
| "loads (EMatMul a b) = loads a @ loads b"
| "loads (EComp ts it el) = loads it @ filter (\<lambda>x. x \<notin> set ts) (loads el)"

text \<open>
  The interpreter of a notebook keeps one global namespace for all its cells. The model
  records for each bound name the cell that bound it last and how: by an import, by a
  definition of a function or class (or the assignment of a \<open>lambda\<close>), or by an assignment
  of a value. It also collects the reads of assigned values across cells: \<open>(j, x, i)\<close> when cell \<open>j\<close> reads \<open>x\<close> as an
  earlier cell \<open>i\<close> assigned it.
\<close>

datatype kind = Imported | Defined | Assigned

datatype state = State (env: "(string \<times> nat \<times> kind) list") (reads: "(nat \<times> string \<times> nat) list")

text \<open>How a statement ends: with an exception, or normally; either way in some namespace.\<close>

datatype result = Raised py_error state | Finished state

definition builtins :: "string list" where
  "builtins = [''print'', ''range'', ''len'', ''list'', ''dict'', ''tuple'', ''object'', ''repr'',
     ''str'', ''int'', ''float'', ''bool'', ''zip'', ''map'', ''sum'', ''min'', ''max'', ''abs'',
     ''enumerate'', ''isinstance'', ''type'']"

definition bind :: "nat \<Rightarrow> kind \<Rightarrow> string list \<Rightarrow> state \<Rightarrow> state" where
  "bind j k names st = State (map (\<lambda>x. (x, j, k)) (rev names) @ env st) (reads st)"

definition note_read :: "nat \<Rightarrow> string \<Rightarrow> nat \<times> kind \<Rightarrow> state \<Rightarrow> state" where
  "note_read j x b st =
     (if snd b = Assigned \<and> fst b < j then State (env st) (reads st @ [(j, x, fst b)]) else st)"

text \<open>Reading names in cell \<open>j\<close>: the first one that is not bound raises \<open>NameError\<close>.\<close>

fun check_loads :: "nat \<Rightarrow> string list \<Rightarrow> state \<Rightarrow> result" where
  "check_loads j [] st = Finished st"
| "check_loads j (x # xs) st =
     (case map_of (env st) x of
        Some b \<Rightarrow> check_loads j xs (note_read j x b st)
      | None \<Rightarrow> if x \<in> set builtins then check_loads j xs st else Raised (NameError x) st)"

fun value_kind :: "expr \<Rightarrow> kind" where
  "value_kind (ELambda _ _) = Defined"
| "value_kind _ = Assigned"

text \<open>
  A statement at the level of a cell, run in cell \<open>j\<close>. A function definition evaluates
  its decorators and binds the name; the body runs only when the function is called,
  which the model does not follow. A class definition runs its body in a scope of its
  own. A loop is taken to run its body once and a branch to take its first arm; at the
  level of a cell the notebooks have \<open>for\<close> loops over non-empty lists only.
\<close>

fun exec :: "nat \<Rightarrow> stmt \<Rightarrow> state \<Rightarrow> result"
  and exec_block :: "nat \<Rightarrow> stmt list \<Rightarrow> state \<Rightarrow> result"
where
  "exec j (SImport ns) st = Finished (bind j Imported ns st)"
| "exec j (SAssign ts e) st =
     (case check_loads j (loads e) st of
        Raised err st' \<Rightarrow> Raised err st'
      | Finished st' \<Rightarrow> Finished (bind j (value_kind e) ts st'))"
| "exec j (SStore t e) st = check_loads j (loads e @ loads t) st"
| "exec j (SAnn x e) st = check_loads j (loads e) st"
| "exec j (SExpr e) st = check_loads j (loads e) st"
| "exec j (SReturn e) st = check_loads j (loads e) st"
| "exec j SPass st = Finished st"
| "exec j (SFor ts it body) st =
     (case check_loads j (loads it) st of
        Raised err st' \<Rightarrow> Raised err st'
      | Finished st' \<Rightarrow> exec_block j body (bind j Assigned ts st'))"
| "exec j (SWhile c body) st =
     (case check_loads j (loads c) st of
        Raised err st' \<Rightarrow> Raised err st'
      | Finished st' \<Rightarrow> exec_block j body st')"
| "exec j (SIf c body orelse) st =
     (case check_loads j (loads c) st of
        Raised err st' \<Rightarrow> Raised err st'
      | Finished st' \<Rightarrow> exec_block j body st')"
| "exec j (SDef name ps decorators body) st =
     (case check_loads j (concat (map loads decorators)) st of
        Raised err st' \<Rightarrow> Raised err st'
      | Finished st' \<Rightarrow> Finished (bind j Defined [name] st'))"
| "exec j (SClass name bases decorators body) st =
     (case check_loads j (concat (map loads decorators) @ concat (map loads bases)) st of
        Raised err st' \<Rightarrow> Raised err st'
      | Finished st' \<Rightarrow>
          (case exec_block j body st' of
             Raised err st'' \<Rightarrow> Raised err (State (env st') (reads st''))
           | Finished st'' \<Rightarrow> Finished (bind j Defined [name] (State (env st') (reads st'')))))"
| "exec_block j [] st = Finished st"
| "exec_block j (s # ss) st =
     (case exec j s st of
        Raised err st' \<Rightarrow> Raised err st'
      | Finished st' \<Rightarrow> exec_block j ss st')"

text \<open>
  The cells of a notebook run in order in a fresh interpreter, cell \<open>j\<close> first. An
  exception ends its cell; the cells after it still run, in the namespace that is left.
  The outcome of each cell is collected: the exception, or nothing.
\<close>

fun run_cells ::
  "nat \<Rightarrow> stmt list list \<Rightarrow> state \<Rightarrow> py_error option list \<Rightarrow> py_error option list \<times> state" where
  "run_cells j [] st acc = (acc, st)"
| "run_cells j (c # cs) st acc =
     (case exec_block j c st of
        Raised err st' \<Rightarrow> run_cells (j + 1) cs st' (acc @ [Some err])
      | Finished st' \<Rightarrow> run_cells (j + 1) cs st' (acc @ [None]))"

definition run_notebook :: "stmt list list \<Rightarrow> py_error option list \<times> state" where
  "run_notebook nb = run_cells 0 nb (State [] []) []"

definition outcomes :: "stmt list list \<Rightarrow> py_error option list" where
  "outcomes nb = fst (run_notebook nb)"

definition cross_cell_reads :: "stmt list list \<Rightarrow> (nat \<times> string \<times> nat) list" where
  "cross_cell_reads nb = remdups (reads (snd (run_notebook nb)))"

subsection \<open>The functions that the notebooks define\<close>

text \<open>All function definitions of a list of statements, the nested ones and methods included.\<close>

fun defs_of :: "stmt \<Rightarrow> stmt list"
  and defs_of_block :: "stmt list \<Rightarrow> stmt list"
where
  "defs_of (SDef name ps ds body) = SDef name ps ds body # defs_of_block body"
| "defs_of (SClass name bases ds body) = defs_of_block body"
| "defs_of (SFor ts it body) = defs_of_block body"
| "defs_of (SWhile c body) = defs_of_block body"
| "defs_of (SIf c body orelse) = defs_of_block body @ defs_of_block orelse"
| "defs_of (SImport _) = []"
| "defs_of (SAssign _ _) = []"
| "defs_of (SStore _ _) = []"
| "defs_of (SAnn _ _) = []"
| "defs_of (SExpr _) = []"
| "defs_of (SReturn _) = []"
| "defs_of SPass = []"
| "defs_of_block [] = []"
| "defs_of_block (s # ss) = defs_of s @ defs_of_block ss"

definition notebook_defs :: "stmt list list \<Rightarrow> stmt list" where
  "notebook_defs nb = defs_of_block (concat nb)"

fun def_name :: "stmt \<Rightarrow> string" where
  "def_name (SDef name _ _ _) = name"
| "def_name _ = []"

fun def_params :: "stmt \<Rightarrow> string list" where
  "def_params (SDef _ ps _ _) = ps"
| "def_params _ = []"

fun def_body :: "stmt \<Rightarrow> stmt list" where
  "def_body (SDef _ _ _ body) = body"
| "def_body _ = []"



text \<open>
  A function directly wraps a single framework call when its body, after the docstring,
  is one \<open>return\<close> of a call whose callee is reached from a name that the notebook
  imports.
\<close>

fun imports_of :: "stmt \<Rightarrow> string list" where
  "imports_of (SImport ns) = ns"
| "imports_of _ = []"

definition notebook_imports :: "stmt list list \<Rightarrow> string list" where
  "notebook_imports nb = concat (map imports_of (concat nb))"

fun root :: "expr \<Rightarrow> string option" where
  "root (EName x) = Some x"
| "root (EAttr e _) = root e"
| "root (ECall f _ _ _) = root f"
| "root _ = None"




subsection \<open>Notebook \<open>auto_vectorization\<close> (\<^verbatim>\<open>src/auto_vectorization.ipynb\<close>)\<close>

text \<open>Code cell 0 (lines 27 to 39).\<close>

definition auto_vectorization_cell0 :: "stmt list" where
  "auto_vectorization_cell0 =
    [SImport [''jax''],
     SImport [''jnp''],
     SAssign [''x''] (ECall (EAttr (EName ''jnp'') ''arange'') [EConst] [] []),
     SAssign [''w''] (ECall (EAttr (EName ''jnp'') ''array'') [EOp []] [] []),
     SDef ''convolve'' [''x'', ''w''] []
       [SAssign [''output''] (EOp []),
        SFor [''i''] (ECall (EName ''range'') [EConst,
        EOp [ECall (EName ''len'') [EName ''x''] [] []]] [] [])
          [SExpr (ECall (EAttr (EName ''output'') ''append'') [ECall (EAttr (EName ''jnp'') ''dot'') [EOp [EName ''x'',
           EOp [EOp [EName ''i''], EOp [EName ''i'']]], EName ''w''] [] []] [] [])],
        SReturn (ECall (EAttr (EName ''jnp'') ''array'') [EName ''output''] [] [])],
     SExpr (ECall (EName ''convolve'') [EName ''x'', EName ''w''] [] [])]"

text \<open>Code cell 1 (lines 67 to 76).\<close>

definition auto_vectorization_cell1 :: "stmt list" where
  "auto_vectorization_cell1 =
    [SAssign [''xs''] (ECall (EAttr (EName ''jnp'') ''stack'') [EOp [EName ''x'',
     EName ''x'']] [] []),
     SAssign [''ws''] (ECall (EAttr (EName ''jnp'') ''stack'') [EOp [EName ''w'',
     EName ''w'']] [] []),
     SDef ''manually_batched_convolve'' [''xs'', ''ws''] []
       [SAssign [''output''] (EOp []),
        SFor [''i''] (ECall (EName ''range'') [EOp [EAttr (EName ''xs'') ''shape'']] [] [])
          [SExpr (ECall (EAttr (EName ''output'') ''append'') [ECall (EName ''convolve'') [EOp [EName ''xs'',
           EName ''i''], EOp [EName ''ws'', EName ''i'']] [] []] [] [])],
        SReturn (ECall (EAttr (EName ''jnp'') ''stack'') [EName ''output''] [] [])],
     SExpr (ECall (EName ''manually_batched_convolve'') [EName ''xs'', EName ''ws''] [] [])]"

text \<open>Code cell 2 (lines 97 to 104).\<close>

definition auto_vectorization_cell2 :: "stmt list" where
  "auto_vectorization_cell2 =
    [SDef ''manually_vectorized_convolve'' [''xs'', ''ws''] []
       [SAssign [''output''] (EOp []),
        SFor [''i''] (ECall (EName ''range'') [EConst,
        EOp [EOp [EAttr (EName ''xs'') ''shape'']]] [] [])
          [SExpr (ECall (EAttr (EName ''output'') ''append'') [ECall (EAttr (EName ''jnp'') ''sum'') [EOp [EOp [EName ''xs'',
           EOp [EOp [], EOp [EOp [EName ''i''], EOp [EName ''i'']]]],
           EName ''ws'']] [''axis''] [EConst]] [] [])],
        SReturn (ECall (EAttr (EName ''jnp'') ''stack'') [EName ''output''] [''axis''] [EConst])],
     SExpr (ECall (EName ''manually_vectorized_convolve'') [EName ''xs'', EName ''ws''] [] [])]"

text \<open>Code cell 3 (lines 132 to 133).\<close>

definition auto_vectorization_cell3 :: "stmt list" where
  "auto_vectorization_cell3 =
    [SAssign [''auto_batch_convolve''] (ECall (EAttr (EName ''jax'') ''vmap'') [EName ''convolve''] [] []),
     SExpr (ECall (EName ''auto_batch_convolve'') [EName ''xs'', EName ''ws''] [] [])]"

text \<open>Code cell 4 (lines 164 to 168).\<close>

definition auto_vectorization_cell4 :: "stmt list" where
  "auto_vectorization_cell4 =
    [SAssign [''auto_batch_convolve2''] (ECall (EAttr (EName ''jax'') ''vmap'') [EName ''convolve''] [''in_axes'',
     ''out_axes''] [EConst, EConst]),
     SAssign [''xst''] (ECall (EAttr (EName ''jnp'') ''transpose'') [EName ''xs''] [] []),
     SAssign [''wst''] (ECall (EAttr (EName ''jnp'') ''transpose'') [EName ''ws''] [] []),
     SExpr (ECall (EName ''auto_batch_convolve2'') [EName ''xst'', EName ''wst''] [] [])]"

text \<open>Code cell 5 (lines 196 to 197).\<close>

definition auto_vectorization_cell5 :: "stmt list" where
  "auto_vectorization_cell5 =
    [SAssign [''batch_convolve3''] (ECall (EAttr (EName ''jax'') ''vmap'') [EName ''convolve''] [''in_axes''] [EOp []]),
     SExpr (ECall (EName ''batch_convolve3'') [EName ''xs'', EName ''w''] [] [])]"

text \<open>Code cell 6 (lines 225 to 226).\<close>

definition auto_vectorization_cell6 :: "stmt list" where
  "auto_vectorization_cell6 =
    [SAssign [''jitted_batch_convolve''] (ECall (EAttr (EName ''jax'') ''jit'') [ECall (EAttr (EName ''jax'') ''vmap'') [EName ''convolve''] [] []] [] []),
     SExpr (ECall (EName ''jitted_batch_convolve'') [EName ''xs'', EName ''ws''] [] [])]"

text \<open>Code cell 7 (empty cell).\<close>

definition auto_vectorization_cell7 :: "stmt list" where
  "auto_vectorization_cell7 =
    []"

definition auto_vectorization :: "stmt list list" where
  "auto_vectorization =
    [auto_vectorization_cell0, auto_vectorization_cell1, auto_vectorization_cell2,
     auto_vectorization_cell3, auto_vectorization_cell4, auto_vectorization_cell5,
     auto_vectorization_cell6, auto_vectorization_cell7]"

subsection \<open>Notebook \<open>introduction\<close> (\<^verbatim>\<open>src/auto_vectorization.ipynb\<close>)\<close>

text \<open>Code cell 0 (lines 267 to 282).\<close>

definition introduction_cell0 :: "stmt list" where
  "introduction_cell0 =
    [SImport [''os''],
     SImport [''math''],
     SImport [''np''],
     SImport [''plt''],
     SPass,
     SImport [''matplotlib''],
     SImport [''set_matplotlib_formats''],
     SImport [''to_rgba''],
     SStore (EOp [EAttr (EName ''matplotlib'') ''rcParams'']) (EConst),
     SImport [''sns''],
     SExpr (ECall (EAttr (EName ''sns'') ''set_context'') [EStr ''talk''] [] []),
     SExpr (ECall (EAttr (EName ''sns'') ''set_style'') [EStr ''whitegrid''] [] []),
     SImport [''time''],
     SImport [''tqdm'']]"

text \<open>Code cell 1 (lines 306 to 308).\<close>

definition introduction_cell1 :: "stmt list" where
  "introduction_cell1 =
    [SImport [''jax''],
     SImport [''jnp''],
     SExpr (ECall (EName ''print'') [EConst, EAttr (EName ''jax'') ''__version__''] [] [])]"

text \<open>Code cell 2 (lines 326 to 329).\<close>

definition introduction_cell2 :: "stmt list" where
  "introduction_cell2 =
    [SAssign [''a''] (ECall (EAttr (EName ''jnp'') ''zeros'') [EOp []] [''dtype''] [EAttr (EName ''jnp'') ''float32'']),
     SExpr (ECall (EName ''print'') [EName ''a''] [] [])]"

text \<open>Code cell 3 (lines 346 to 348).\<close>

definition introduction_cell3 :: "stmt list" where
  "introduction_cell3 =
    [SAssign [''b''] (ECall (EAttr (EName ''jnp'') ''arange'') [EConst] [] []),
     SExpr (ECall (EName ''print'') [EName ''b''] [] [])]"

text \<open>Code cell 4 (lines 368 to 368).\<close>

definition introduction_cell4 :: "stmt list" where
  "introduction_cell4 =
    [SExpr (EAttr (EName ''b'') ''__class__'')]"

text \<open>Code cell 5 (lines 395 to 395).\<close>

definition introduction_cell5 :: "stmt list" where
  "introduction_cell5 =
    [SExpr (ECall (EAttr (EName ''b'') ''devices'') [] [] [])]"

text \<open>Code cell 6 (lines 412 to 415).\<close>

definition introduction_cell6 :: "stmt list" where
  "introduction_cell6 =
    [SAssign [''b_cpu''] (ECall (EAttr (EName ''jax'') ''device_get'') [EName ''b''] [] []),
     SExpr (ECall (EName ''print'') [EAttr (EName ''b_cpu'') ''__class__''] [] [])]"

text \<open>Code cell 7 (lines 432 to 436).\<close>

definition introduction_cell7 :: "stmt list" where
  "introduction_cell7 =
    [SAssign [''b_gpu''] (ECall (EAttr (EName ''jax'') ''device_put'') [EName ''b_cpu''] [] []),
     SExpr (ECall (EName ''print'') [EOp [EAttr (EName ''b_gpu'') ''__class__'',
     ECall (EAttr (EName ''b_gpu'') ''devices'') [] [] []]] [] [])]"

text \<open>Code cell 8 (lines 463 to 463).\<close>

definition introduction_cell8 :: "stmt list" where
  "introduction_cell8 =
    [SExpr (EOp [EName ''b_cpu'', EName ''b_gpu''])]"

text \<open>Code cell 9 (lines 499 to 501).\<close>

definition introduction_cell9 :: "stmt list" where
  "introduction_cell9 =
    [SAssign [''b_new''] (ECall (EAttr (EOp [EAttr (EName ''b'') ''at'']) ''set'') [EConst] [] []),
     SExpr (ECall (EName ''print'') [EConst, EName ''b''] [] []),
     SExpr (ECall (EName ''print'') [EConst, EName ''b_new''] [] [])]"

text \<open>Code cell 10 (lines 521 to 521).\<close>

definition introduction_cell10 :: "stmt list" where
  "introduction_cell10 =
    [SAssign [''rng''] (ECall (EAttr (EAttr (EName ''jax'') ''random'') ''PRNGKey'') [EConst] [] [])]"

text \<open>Code cell 11 (lines 541 to 553).\<close>

definition introduction_cell11 :: "stmt list" where
  "introduction_cell11 =
    [SAssign [''jax_random_number_1''] (ECall (EAttr (EAttr (EName ''jax'') ''random'') ''normal'') [EName ''rng''] [] []),
     SAssign [''jax_random_number_2''] (ECall (EAttr (EAttr (EName ''jax'') ''random'') ''normal'') [EName ''rng''] [] []),
     SExpr (ECall (EName ''print'') [EConst, EName ''jax_random_number_1''] [] []),
     SExpr (ECall (EName ''print'') [EConst, EName ''jax_random_number_2''] [] []),
     SExpr (ECall (EAttr (EAttr (EName ''np'') ''random'') ''seed'') [EConst] [] []),
     SAssign [''np_random_number_1''] (ECall (EAttr (EAttr (EName ''np'') ''random'') ''normal'') [] [] []),
     SAssign [''np_random_number_2''] (ECall (EAttr (EAttr (EName ''np'') ''random'') ''normal'') [] [] []),
     SExpr (ECall (EName ''print'') [EConst, EName ''np_random_number_1''] [] []),
     SExpr (ECall (EName ''print'') [EConst, EName ''np_random_number_2''] [] [])]"

text \<open>Code cell 12 (lines 578 to 582).\<close>

definition introduction_cell12 :: "stmt list" where
  "introduction_cell12 =
    [SAssign [''rng'', ''subkey1'',
     ''subkey2''] (ECall (EAttr (EAttr (EName ''jax'') ''random'') ''split'') [EName ''rng''] [''num''] [EConst]),
     SAssign [''jax_random_number_1''] (ECall (EAttr (EAttr (EName ''jax'') ''random'') ''normal'') [EName ''subkey1''] [] []),
     SAssign [''jax_random_number_2''] (ECall (EAttr (EAttr (EName ''jax'') ''random'') ''normal'') [EName ''subkey2''] [] []),
     SExpr (ECall (EName ''print'') [EConst, EName ''jax_random_number_1''] [] []),
     SExpr (ECall (EName ''print'') [EConst, EName ''jax_random_number_2''] [] [])]"

text \<open>Code cell 13 (lines 613 to 622).\<close>

definition introduction_cell13 :: "stmt list" where
  "introduction_cell13 =
    [SDef ''simple_graph'' [''x''] []
       [SAssign [''x''] (EOp [EName ''x'']),
        SAssign [''x''] (EOp [EName ''x'']),
        SAssign [''x''] (EOp [EName ''x'']),
        SAssign [''y''] (ECall (EAttr (EName ''x'') ''mean'') [] [] []),
        SReturn (EName ''y'')],
     SAssign [''inp''] (ECall (EAttr (EName ''jnp'') ''arange'') [EConst] [''dtype''] [EAttr (EName ''jnp'') ''float32'']),
     SExpr (ECall (EName ''print'') [EStr ''Input'', EName ''inp''] [] []),
     SExpr (ECall (EName ''print'') [EStr ''Output'',
     ECall (EName ''simple_graph'') [EName ''inp''] [] []] [] [])]"

text \<open>Code cell 14 (lines 648 to 652).\<close>

definition introduction_cell14 :: "stmt list" where
  "introduction_cell14 =
    [SExpr (ECall (ECall (EAttr (EName ''jax'') ''make_jaxpr'') [EName ''simple_graph''] [] []) [EName ''inp''] [] [])]"

text \<open>Code cell 15 (lines 676 to 688).\<close>

definition introduction_cell15 :: "stmt list" where
  "introduction_cell15 =
    [SAssign [''global_list''] (EOp []),
     SDef ''norm'' [''x''] []
       [SExpr (ECall (EAttr (EName ''global_list'') ''append'') [EName ''x''] [] []),
        SAssign [''x''] (EOp [EName ''x'']),
        SAssign [''n''] (ECall (EAttr (EName ''x'') ''sum'') [] [] []),
        SAssign [''n''] (ECall (EAttr (EName ''jnp'') ''sqrt'') [EName ''n''] [] []),
        SReturn (EName ''n'')],
     SExpr (ECall (ECall (EAttr (EName ''jax'') ''make_jaxpr'') [EName ''norm''] [] []) [EName ''inp''] [] [])]"

text \<open>Code cell 16 (lines 714 to 716).\<close>

definition introduction_cell16 :: "stmt list" where
  "introduction_cell16 =
    [SAssign [''grad_function''] (ECall (EAttr (EName ''jax'') ''grad'') [EName ''simple_graph''] [] []),
     SAssign [''gradients''] (ECall (EName ''grad_function'') [EName ''inp''] [] []),
     SExpr (ECall (EName ''print'') [EConst, EName ''gradients''] [] [])]"

text \<open>Code cell 17 (lines 747 to 748).\<close>

definition introduction_cell17 :: "stmt list" where
  "introduction_cell17 =
    [SExpr (ECall (ECall (EAttr (EName ''jax'') ''make_jaxpr'') [EName ''grad_function''] [] []) [EName ''inp''] [] [])]"

text \<open>Code cell 18 (lines 776 to 777).\<close>

definition introduction_cell18 :: "stmt list" where
  "introduction_cell18 =
    [SAssign [''val_grad_function''] (ECall (EAttr (EName ''jax'') ''value_and_grad'') [EName ''simple_graph''] [] []),
     SExpr (ECall (EName ''val_grad_function'') [EName ''inp''] [] [])]"

text \<open>Code cell 19 (lines 797 to 797).\<close>

definition introduction_cell19 :: "stmt list" where
  "introduction_cell19 =
    [SAssign [''jitted_function''] (ECall (EAttr (EName ''jax'') ''jit'') [EName ''simple_graph''] [] [])]"

text \<open>Code cell 20 (lines 806 to 811).\<close>

definition introduction_cell20 :: "stmt list" where
  "introduction_cell20 =
    [SAssign [''rng'',
     ''normal_rng''] (ECall (EAttr (EAttr (EName ''jax'') ''random'') ''split'') [EName ''rng''] [] []),
     SAssign [''large_input''] (ECall (EAttr (EAttr (EName ''jax'') ''random'') ''normal'') [EName ''normal_rng'',
     EOp []] [] []),
     SAssign [''_''] (ECall (EName ''jitted_function'') [EName ''large_input''] [] [])]"

text \<open>Code cell 21 (lines 828 to 829).\<close>

definition introduction_cell21 :: "stmt list" where
  "introduction_cell21 =
    [SPass,
     SExpr (ECall (EAttr (ECall (EName ''simple_graph'') [EName ''large_input''] [] []) ''block_until_ready'') [] [] [])]"

text \<open>Code cell 22 (lines 846 to 847).\<close>

definition introduction_cell22 :: "stmt list" where
  "introduction_cell22 =
    [SPass,
     SExpr (ECall (EAttr (ECall (EName ''jitted_function'') [EName ''large_input''] [] []) ''block_until_ready'') [] [] [])]"

text \<open>Code cell 23 (lines 863 to 864).\<close>

definition introduction_cell23 :: "stmt list" where
  "introduction_cell23 =
    [SAssign [''jitted_grad_function''] (ECall (EAttr (EName ''jax'') ''jit'') [EName ''grad_function''] [] []),
     SAssign [''_''] (ECall (EName ''jitted_grad_function'') [EName ''large_input''] [] [])]"

text \<open>Code cell 24 (lines 881 to 882).\<close>

definition introduction_cell24 :: "stmt list" where
  "introduction_cell24 =
    [SPass,
     SExpr (ECall (EAttr (ECall (EName ''grad_function'') [EName ''large_input''] [] []) ''block_until_ready'') [] [] [])]"

text \<open>Code cell 25 (lines 899 to 900).\<close>

definition introduction_cell25 :: "stmt list" where
  "introduction_cell25 =
    [SPass,
     SExpr (ECall (EAttr (ECall (EName ''jitted_grad_function'') [EName ''large_input''] [] []) ''block_until_ready'') [] [] [])]"

text \<open>Code cell 26 (empty cell).\<close>

definition introduction_cell26 :: "stmt list" where
  "introduction_cell26 =
    []"

definition introduction :: "stmt list list" where
  "introduction =
    [introduction_cell0, introduction_cell1, introduction_cell2, introduction_cell3,
     introduction_cell4, introduction_cell5, introduction_cell6, introduction_cell7,
     introduction_cell8, introduction_cell9, introduction_cell10, introduction_cell11,
     introduction_cell12, introduction_cell13, introduction_cell14, introduction_cell15,
     introduction_cell16, introduction_cell17, introduction_cell18, introduction_cell19,
     introduction_cell20, introduction_cell21, introduction_cell22, introduction_cell23,
     introduction_cell24, introduction_cell25, introduction_cell26]"

subsection \<open>Notebook \<open>gradient_checkpoint\<close> (\<^verbatim>\<open>src/gradient_checkpoint.ipynb\<close>)\<close>

text \<open>Code cell 0 (lines 34 to 57).\<close>

definition gradient_checkpoint_cell0 :: "stmt list" where
  "gradient_checkpoint_cell0 =
    [SImport [''jax''],
     SImport [''jax''],
     SImport [''jnp''],
     SDef ''g'' [''W'', ''x''] []
       [SAssign [''y''] (ECall (EAttr (EName ''jnp'') ''dot'') [EName ''W'', EName ''x''] [] []),
        SReturn (ECall (EAttr (EName ''jnp'') ''sin'') [EName ''y''] [] [])],
     SDef ''f'' [''W1'', ''W2'', ''W3'', ''x''] []
       [SAssign [''x''] (ECall (EName ''g'') [EName ''W1'', EName ''x''] [] []),
        SAssign [''x''] (ECall (EName ''g'') [EName ''W2'', EName ''x''] [] []),
        SAssign [''x''] (ECall (EName ''g'') [EName ''W3'', EName ''x''] [] []),
        SReturn (EName ''x'')],
     SAssign [''W1''] (ECall (EAttr (EName ''jnp'') ''ones'') [EOp []] [] []),
     SAssign [''W2''] (ECall (EAttr (EName ''jnp'') ''ones'') [EOp []] [] []),
     SAssign [''W3''] (ECall (EAttr (EName ''jnp'') ''ones'') [EOp []] [] []),
     SAssign [''x''] (ECall (EAttr (EName ''jnp'') ''ones'') [EConst] [] []),
     SImport [''print_saved_residuals''],
     SExpr (ECall (EAttr (EAttr (EName ''jax'') ''ad_checkpoint'') ''print_saved_residuals'') [EName ''f'',
     EName ''W1'', EName ''W2'', EName ''W3'', EName ''x''] [] [])]"

text \<open>Code cell 1 (lines 86 to 91).\<close>

definition gradient_checkpoint_cell1 :: "stmt list" where
  "gradient_checkpoint_cell1 =
    [SDef ''f2'' [''W1'', ''W2'', ''W3'', ''x''] []
       [SAssign [''x''] (ECall (ECall (EAttr (EName ''jax'') ''checkpoint'') [EName ''g''] [] []) [EName ''W1'',
        EName ''x''] [] []),
        SAssign [''x''] (ECall (ECall (EAttr (EName ''jax'') ''checkpoint'') [EName ''g''] [] []) [EName ''W2'',
        EName ''x''] [] []),
        SAssign [''x''] (ECall (ECall (EAttr (EName ''jax'') ''checkpoint'') [EName ''g''] [] []) [EName ''W3'',
        EName ''x''] [] []),
        SReturn (EName ''x'')],
     SExpr (ECall (EAttr (EAttr (EName ''jax'') ''ad_checkpoint'') ''print_saved_residuals'') [EName ''f2'',
     EName ''W1'', EName ''W2'', EName ''W3'', EName ''x''] [] [])]"

text \<open>Code cell 2 (lines 123 to 124).\<close>

definition gradient_checkpoint_cell2 :: "stmt list" where
  "gradient_checkpoint_cell2 =
    [SAssign [''f3''] (ECall (EAttr (EName ''jax'') ''checkpoint'') [EName ''f''] [''policy''] [EAttr (EAttr (EName ''jax'') ''checkpoint_policies'') ''dots_with_no_batch_dims_saveable'']),
     SExpr (ECall (EAttr (EAttr (EName ''jax'') ''ad_checkpoint'') ''print_saved_residuals'') [EName ''f3'',
     EName ''W1'', EName ''W2'', EName ''W3'', EName ''x''] [] [])]"

text \<open>Code cell 3 (lines 152 to 161).\<close>

definition gradient_checkpoint_cell3 :: "stmt list" where
  "gradient_checkpoint_cell3 =
    [SImport [''checkpoint_name''],
     SDef ''f4'' [''W1'', ''W2'', ''W3'', ''x''] []
       [SAssign [''x''] (ECall (EName ''checkpoint_name'') [ECall (EName ''g'') [EName ''W1'',
        EName ''x''] [] []] [''name''] [EStr ''a'']),
        SAssign [''x''] (ECall (EName ''checkpoint_name'') [ECall (EName ''g'') [EName ''W2'',
        EName ''x''] [] []] [''name''] [EStr ''b'']),
        SAssign [''x''] (ECall (EName ''checkpoint_name'') [ECall (EName ''g'') [EName ''W3'',
        EName ''x''] [] []] [''name''] [EStr ''c'']),
        SReturn (EName ''x'')],
     SAssign [''f4''] (ECall (EAttr (EName ''jax'') ''checkpoint'') [EName ''f4''] [''policy''] [ECall (EAttr (EAttr (EName ''jax'') ''checkpoint_policies'') ''save_only_these_names'') [EStr ''a''] [] []]),
     SExpr (ECall (EAttr (EAttr (EName ''jax'') ''ad_checkpoint'') ''print_saved_residuals'') [EName ''f4'',
     EName ''W1'', EName ''W2'', EName ''W3'', EName ''x''] [] [])]"

text \<open>Code cell 4 (lines 177 to 212).\<close>

definition gradient_checkpoint_cell4 :: "stmt list" where
  "gradient_checkpoint_cell4 =
    [SImport [''tree_flatten'', ''tree_unflatten''],
     SImport [''Console''],
     SImport [''rich''],
     SImport [''Table''],
     SImport [''rich''],
     SDef ''print_fwd_bwd'' [''f'', ''args'', ''kwargs''] []
       [SAssign [''args'', ''in_tree''] (ECall (EName ''tree_flatten'') [EOp [EName ''args'',
        EName ''kwargs'']] [] []),
        SDef ''f_'' [''args''] []
          [SAssign [''args'', ''kwargs''] (ECall (EName ''tree_unflatten'') [EName ''in_tree'',
           EName ''args''] [] []),
           SReturn (ECall (EName ''f'') [EName ''args''] [''**''] [EName ''kwargs''])],
        SAssign [''fwd''] (EAttr (ECall (ECall (EAttr (EName ''jax'') ''make_jaxpr'') [ELambda [''args''] (ECall (EAttr (EName ''jax'') ''vjp'') [EName ''f_'',
        EName ''args''] [] [])] [] []) [EName ''args''] [] []) ''jaxpr''),
        SAssign [''y'', ''f_vjp''] (ECall (EAttr (EName ''jax'') ''vjp'') [EName ''f_'',
        EName ''args''] [] []),
        SAssign [''res'', ''in_tree''] (ECall (EName ''tree_flatten'') [EName ''f_vjp''] [] []),
        SDef ''g_'' [''args''] []
          [SAssign [''res'', ''y''] (EName ''args''),
           SAssign [''f_vjp''] (ECall (EName ''tree_unflatten'') [EName ''in_tree'',
           EName ''res''] [] []),
           SReturn (ECall (EName ''f_vjp'') [EName ''y''] [] [])],
        SAssign [''bwd''] (EAttr (ECall (ECall (EAttr (EName ''jax'') ''make_jaxpr'') [EName ''g_''] [] []) [EName ''res'',
        EName ''y''] [] []) ''jaxpr''),
        SAssign [''table''] (ECall (EName ''Table'') [] [''show_header'', ''show_lines'',
        ''padding'', ''box''] [EConst, EConst, EOp [], EConst]),
        SExpr (ECall (EAttr (EName ''table'') ''add_row'') [EConst, EConst] [] []),
        SExpr (ECall (EAttr (EName ''table'') ''add_row'') [ECall (EAttr (EAttr (EAttr (EName ''rich'') ''text'') ''Text'') ''from_ansi'') [ECall (EName ''str'') [EName ''fwd''] [] []] [] [],
        ECall (EAttr (EAttr (EAttr (EName ''rich'') ''text'') ''Text'') ''from_ansi'') [ECall (EName ''str'') [EName ''bwd''] [] []] [] []] [] []),
        SAssign [''console''] (ECall (EName ''Console'') [] [''width'',
        ''force_jupyter''] [EConst, EConst]),
        SExpr (ECall (EAttr (EName ''console'') ''print'') [EName ''table''] [] [])],
     SDef ''_renderable_repr'' [''self''] []
       [SReturn (EAttr (EName ''self'') ''html'')],
     SStore (EAttr (EAttr (EAttr (EName ''rich'') ''jupyter'') ''JupyterRenderable'') ''_repr_html_'') (EName ''_renderable_repr'')]"

text \<open>Code cell 5 (lines 299 to 300).\<close>

definition gradient_checkpoint_cell5 :: "stmt list" where
  "gradient_checkpoint_cell5 =
    [SExpr (ECall (EName ''print_fwd_bwd'') [EName ''f'', EName ''W1'', EName ''W2'',
     EName ''W3'', EName ''x''] [] [])]"

text \<open>Code cell 6 (lines 411 to 412).\<close>

definition gradient_checkpoint_cell6 :: "stmt list" where
  "gradient_checkpoint_cell6 =
    [SExpr (ECall (EName ''print_fwd_bwd'') [EName ''f3'', EName ''W1'', EName ''W2'',
     EName ''W3'', EName ''x''] [] [])]"

text \<open>Code cell 7 (empty cell).\<close>

definition gradient_checkpoint_cell7 :: "stmt list" where
  "gradient_checkpoint_cell7 =
    []"

definition gradient_checkpoint :: "stmt list list" where
  "gradient_checkpoint =
    [gradient_checkpoint_cell0, gradient_checkpoint_cell1, gradient_checkpoint_cell2,
     gradient_checkpoint_cell3, gradient_checkpoint_cell4, gradient_checkpoint_cell5,
     gradient_checkpoint_cell6, gradient_checkpoint_cell7]"

subsection \<open>Notebook \<open>pytrees\<close> (\<^verbatim>\<open>src/gradient_checkpoint.ipynb\<close>)\<close>

text \<open>Code cell 0 (lines 482 to 483).\<close>

definition pytrees_cell0 :: "stmt list" where
  "pytrees_cell0 =
    [SImport [''jax''],
     SImport [''jnp'']]"

text \<open>Code cell 1 (lines 504 to 515).\<close>

definition pytrees_cell1 :: "stmt list" where
  "pytrees_cell1 =
    [SAssign [''example_trees''] (EOp [EOp [ECall (EName ''object'') [] [] []], EOp [EOp [],
     EOp []], EOp [EOp [EOp []]], EOp [EOp []],
     ECall (EAttr (EName ''jnp'') ''array'') [EOp []] [] []]),
     SFor [''pytree''] (EName ''example_trees'')
       [SAssign [''leaves''] (ECall (EAttr (EAttr (EName ''jax'') ''tree_util'') ''tree_leaves'') [EName ''pytree''] [] []),
        SExpr (ECall (EName ''print'') [EOp [ECall (EName ''repr'') [EName ''pytree''] [] [],
        ECall (EName ''len'') [EName ''leaves''] [] [], EName ''leaves'']] [] [])]]"

text \<open>Code cell 2 (lines 549 to 555).\<close>

definition pytrees_cell2 :: "stmt list" where
  "pytrees_cell2 =
    [SAssign [''list_of_lists''] (EOp [EOp [], EOp [], EOp []]),
     SExpr (ECall (EAttr (EAttr (EName ''jax'') ''tree'') ''map'') [ELambda [''x''] (EOp [EName ''x'']),
     EName ''list_of_lists''] [] [])]"

text \<open>Code cell 3 (lines 584 to 585).\<close>

definition pytrees_cell3 :: "stmt list" where
  "pytrees_cell3 =
    [SAssign [''another_list''] (EName ''list_of_lists''),
     SExpr (ECall (EAttr (EAttr (EName ''jax'') ''tree'') ''map'') [ELambda [''x'',
     ''y''] (EOp [EName ''x'', EName ''y'']), EName ''list_of_lists'',
     EName ''another_list''] [] [])]"

text \<open>Code cell 4 (lines 601 to 610).\<close>

definition pytrees_cell4 :: "stmt list" where
  "pytrees_cell4 =
    [SImport [''np''],
     SDef ''init_mlp_params'' [''layer_widths''] []
       [SAssign [''params''] (EOp []),
        SFor [''n_in'', ''n_out''] (ECall (EName ''zip'') [EOp [EName ''layer_widths'',
        EOp [EOp []]], EOp [EName ''layer_widths'', EOp []]] [] [])
          [SExpr (ECall (EAttr (EName ''params'') ''append'') [ECall (EName ''dict'') [] [''weights'',
           ''bias''] [EOp [ECall (EAttr (EAttr (EName ''np'') ''random'') ''normal'') [] [''size''] [EOp [EName ''n_in'',
           EName ''n_out'']],
           ECall (EAttr (EName ''np'') ''sqrt'') [EOp [EName ''n_in'']] [] []],
           ECall (EAttr (EName ''np'') ''ones'') [] [''shape''] [EOp [EName ''n_out'']]]] [] [])],
        SReturn (EName ''params'')],
     SAssign [''params''] (ECall (EName ''init_mlp_params'') [EOp []] [] [])]"

text \<open>Code cell 5 (lines 632 to 633).\<close>

definition pytrees_cell5 :: "stmt list" where
  "pytrees_cell5 =
    [SExpr (ECall (EAttr (EAttr (EName ''jax'') ''tree'') ''map'') [ELambda [''x''] (EAttr (EName ''x'') ''shape''),
     EName ''params''] [] [])]"

text \<open>Code cell 6 (lines 642 to 669).\<close>

definition pytrees_cell6 :: "stmt list" where
  "pytrees_cell6 =
    [SDef ''forward'' [''params'', ''x''] []
       [SAssign [''hidden'', ''last''] (EName ''params''),
        SFor [''layer''] (EName ''hidden'')
          [SAssign [''x''] (ECall (EAttr (EAttr (EName ''jax'') ''nn'') ''relu'') [EOp [EMatMul (EName ''x'') (EOp [EName ''layer'']),
           EOp [EName ''layer'']]] [] [])],
        SReturn (EOp [EMatMul (EName ''x'') (EOp [EName ''last'']), EOp [EName ''last'']])],
     SDef ''loss_fn'' [''params'', ''x'', ''y''] []
       [SReturn (ECall (EAttr (EName ''jnp'') ''mean'') [EOp [EOp [ECall (EName ''forward'') [EName ''params'',
        EName ''x''] [] [], EName ''y'']]] [] [])],
     SAssign [''lr''] (EConst),
     SDef ''update'' [''params'', ''x'', ''y''] [EAttr (EName ''jax'') ''jit'']
       [SAssign [''grads''] (ECall (ECall (EAttr (EName ''jax'') ''grad'') [EName ''loss_fn''] [] []) [EName ''params'',
        EName ''x'', EName ''y''] [] []),
        SReturn (ECall (EAttr (EName ''jax'') ''tree_map'') [ELambda [''p'',
        ''g''] (EOp [EName ''p'', EOp [EName ''lr'', EName ''g'']]), EName ''params'',
        EName ''grads''] [] [])]]"

text \<open>Code cell 7 (lines 696 to 704).\<close>

definition pytrees_cell7 :: "stmt list" where
  "pytrees_cell7 =
    [SClass ''Special'' [EName ''object''] []
       [SDef ''__init__'' [''self'', ''x'', ''y''] []
          [SStore (EAttr (EName ''self'') ''x'') (EName ''x''),
           SStore (EAttr (EName ''self'') ''y'') (EName ''y'')]],
     SExpr (ECall (EAttr (EAttr (EName ''jax'') ''tree'') ''leaves'') [EOp [ECall (EName ''Special'') [EConst,
     EConst] [] [], ECall (EName ''Special'') [EConst, EConst] [] []]] [] [])]"

text \<open>Code cell 8 (lines 713 to 719, all of it commented out).\<close>

definition pytrees_cell8 :: "stmt list" where
  "pytrees_cell8 =
    []"

text \<open>Code cell 9 (lines 735 to 775).\<close>

definition pytrees_cell9 :: "stmt list" where
  "pytrees_cell9 =
    [SImport [''register_pytree_node''],
     SClass ''RegisteredSpecial'' [EName ''Special''] []
       [SDef ''__repr__'' [''self''] []
          [SReturn (ECall (EAttr (EConst) ''format'') [EAttr (EName ''self'') ''x'',
           EAttr (EName ''self'') ''y''] [] [])]],
     SDef ''special_flatten'' [''v''] []
       [SExpr (EConst),
        SAssign [''children''] (EOp [EAttr (EName ''v'') ''x'', EAttr (EName ''v'') ''y'']),
        SAssign [''aux_data''] (EConst),
        SReturn (EOp [EName ''children'', EName ''aux_data''])],
     SDef ''special_unflatten'' [''aux_data'', ''children''] []
       [SExpr (EConst),
        SReturn (ECall (EName ''RegisteredSpecial'') [EName ''children''] [] [])],
     SExpr (ECall (EName ''register_pytree_node'') [EName ''RegisteredSpecial'',
     EName ''special_flatten'', EName ''special_unflatten''] [] [])]"

text \<open>Code cell 10 (lines 795 to 799).\<close>

definition pytrees_cell10 :: "stmt list" where
  "pytrees_cell10 =
    [SExpr (ECall (EAttr (EAttr (EName ''jax'') ''tree'') ''map'') [ELambda [''x''] (EOp [EName ''x'']),
     EOp [ECall (EName ''RegisteredSpecial'') [EConst, EConst] [] [],
     ECall (EName ''RegisteredSpecial'') [EConst, EConst] [] []]] [] [])]"

text \<open>Code cell 11 (lines 826 to 836).\<close>

definition pytrees_cell11 :: "stmt list" where
  "pytrees_cell11 =
    [SImport [''NamedTuple'', ''Any''],
     SClass ''MyOtherContainer'' [EName ''NamedTuple''] []
       [SAnn ''name'' (EName ''str''),
        SAnn ''a'' (EName ''Any''),
        SAnn ''b'' (EName ''Any''),
        SAnn ''c'' (EName ''Any'')],
     SExpr (ECall (EAttr (EAttr (EName ''jax'') ''tree'') ''leaves'') [EOp [ECall (EName ''MyOtherContainer'') [EStr ''foo'',
     EConst, EConst, EConst] [] [], ECall (EName ''MyOtherContainer'') [EStr ''bar'', EConst,
     EConst, EConst] [] []]] [] [])]"

text \<open>Code cell 12 (lines 869 to 885).\<close>

definition pytrees_cell12 :: "stmt list" where
  "pytrees_cell12 =
    [SImport [''dataclass''],
     SImport [''functools''],
     SClass ''MyDataclassContainer'' [EName ''object''] [ECall (EAttr (EName ''functools'') ''partial'') [EAttr (EAttr (EName ''jax'') ''tree_util'') ''register_dataclass''] [''data_fields'',
     ''meta_fields''] [EOp [], EOp []], EName ''dataclass'']
       [SAnn ''name'' (EName ''str''),
        SAnn ''a'' (EName ''Any''),
        SAnn ''b'' (EName ''Any''),
        SAnn ''c'' (EName ''Any'')],
     SExpr (ECall (EAttr (EAttr (EName ''jax'') ''tree'') ''leaves'') [EOp [ECall (EName ''MyDataclassContainer'') [EStr ''apple'',
     EConst, EConst, ECall (EAttr (EName ''jnp'') ''zeros'') [EOp []] [] []] [] [],
     ECall (EName ''MyDataclassContainer'') [EStr ''banana'', EConst, EConst,
     ECall (EAttr (EName ''jnp'') ''ones'') [EOp []] [] []] [] []]] [] [])]"

text \<open>Code cell 13 (lines 905 to 911).\<close>

definition pytrees_cell13 :: "stmt list" where
  "pytrees_cell13 =
    [SImport [''vmap'']]"

text \<open>Code cell 14 (lines 946 to 953).\<close>

definition pytrees_cell14 :: "stmt list" where
  "pytrees_cell14 =
    [SImport [''collections''],
     SAssign [''ATuple''] (ECall (EAttr (EName ''collections'') ''namedtuple'') [EStr ''Atuple'',
     EStr ''name''] [] []),
     SAssign [''tree''] (EOp [EOp [EOp []], ECall (EName ''ATuple'') [EStr ''foo''] [] []]),
     SAssign [''flattened'',
     ''_''] (ECall (EAttr (EAttr (EName ''jax'') ''tree_util'') ''tree_flatten_with_path'') [EName ''tree''] [] []),
     SFor [''key_path'', ''value''] (EName ''flattened'')
       [SExpr (ECall (EName ''print'') [EOp [ECall (EAttr (EAttr (EName ''jax'') ''tree_util'') ''keystr'') [EName ''key_path''] [] [],
        EName ''value'']] [] [])]]"

text \<open>Code cell 15 (lines 981 to 982).\<close>

definition pytrees_cell15 :: "stmt list" where
  "pytrees_cell15 =
    [SFor [''key_path'', ''_''] (EName ''flattened'')
       [SExpr (ECall (EName ''print'') [EOp [ECall (EAttr (EAttr (EName ''jax'') ''tree_util'') ''keystr'') [EName ''key_path''] [] [],
        ECall (EName ''repr'') [EName ''key_path''] [] []]] [] [])]]"

text \<open>Code cell 16 (lines 1019 to 1025).\<close>

definition pytrees_cell16 :: "stmt list" where
  "pytrees_cell16 =
    [SDef ''tree_transpose'' [''list_of_trees''] []
       [SReturn (ECall (EAttr (EAttr (EName ''jax'') ''tree'') ''map'') [ELambda [''xs''] (ECall (EName ''list'') [EName ''xs''] [] []),
        EName ''list_of_trees''] [] [])],
     SAssign [''episode_steps''] (EOp [ECall (EName ''dict'') [] [''t'', ''obs''] [EConst,
     EConst], ECall (EName ''dict'') [] [''t'', ''obs''] [EConst, EConst]]),
     SExpr (ECall (EName ''tree_transpose'') [EName ''episode_steps''] [] [])]"

text \<open>Code cell 17 (lines 1045 to 1049).\<close>

definition pytrees_cell17 :: "stmt list" where
  "pytrees_cell17 =
    [SExpr (ECall (EAttr (EAttr (EName ''jax'') ''tree'') ''transpose'') [] [''outer_treedef'',
     ''inner_treedef'',
     ''pytree_to_transpose''] [ECall (EAttr (EAttr (EName ''jax'') ''tree'') ''structure'') [EComp [''e''] (EName ''episode_steps'') (EConst)] [] [],
     ECall (EAttr (EAttr (EName ''jax'') ''tree'') ''structure'') [EOp [EName ''episode_steps'']] [] [],
     EName ''episode_steps''])]"

text \<open>Code cell 18 (empty cell).\<close>

definition pytrees_cell18 :: "stmt list" where
  "pytrees_cell18 =
    []"

definition pytrees :: "stmt list list" where
  "pytrees =
    [pytrees_cell0, pytrees_cell1, pytrees_cell2, pytrees_cell3, pytrees_cell4, pytrees_cell5,
     pytrees_cell6, pytrees_cell7, pytrees_cell8, pytrees_cell9, pytrees_cell10, pytrees_cell11,
     pytrees_cell12, pytrees_cell13, pytrees_cell14, pytrees_cell15, pytrees_cell16,
     pytrees_cell17, pytrees_cell18]"

subsection \<open>Notebook \<open>auto_differentiation\<close> (\<^verbatim>\<open>src/auto_differentiation.ipynb\<close>)\<close>

text \<open>Code cell 0 (lines 9 to 11).\<close>

definition auto_differentiation_cell0 :: "stmt list" where
  "auto_differentiation_cell0 =
    [SImport [''jax''],
     SImport [''jnp''],
     SImport [''grad'']]"

text \<open>Code cell 1 (lines 36 to 37).\<close>

definition auto_differentiation_cell1 :: "stmt list" where
  "auto_differentiation_cell1 =
    [SAssign [''grad_tanh''] (ECall (EName ''grad'') [EAttr (EName ''jnp'') ''tanh''] [] []),
     SExpr (ECall (EName ''print'') [ECall (EName ''grad_tanh'') [EConst] [] []] [] [])]"

text \<open>Code cell 2 (lines 62 to 63).\<close>

definition auto_differentiation_cell2 :: "stmt list" where
  "auto_differentiation_cell2 =
    [SExpr (ECall (EName ''print'') [ECall (ECall (EName ''grad'') [ECall (EName ''grad'') [EAttr (EName ''jnp'') ''tanh''] [] []] [] []) [EConst] [] []] [] []),
     SExpr (ECall (EName ''print'') [ECall (ECall (EName ''grad'') [ECall (EName ''grad'') [ECall (EName ''grad'') [EAttr (EName ''jnp'') ''tanh''] [] []] [] []] [] []) [EConst] [] []] [] [])]"

text \<open>Code cell 3 (lines 93 to 95).\<close>

definition auto_differentiation_cell3 :: "stmt list" where
  "auto_differentiation_cell3 =
    [SAssign [''f''] (ELambda [''x''] (EOp [EOp [EOp [EOp [EName ''x''],
     EOp [EOp [EName ''x'']]], EOp [EName ''x'']]])),
     SAssign [''dfdx''] (ECall (EName ''grad'') [EName ''f''] [] [])]"

text \<open>Code cell 4 (lines 115 to 124).\<close>

definition auto_differentiation_cell4 :: "stmt list" where
  "auto_differentiation_cell4 =
    [SAssign [''d2fdx''] (ECall (EAttr (EName ''jax'') ''grad'') [EName ''dfdx''] [] []),
     SAssign [''d3fdx''] (ECall (EAttr (EName ''jax'') ''grad'') [EName ''d2fdx''] [] []),
     SAssign [''d4fdx''] (ECall (EAttr (EName ''jax'') ''grad'') [EName ''d3fdx''] [] []),
     SExpr (ECall (EName ''print'') [ECall (EName ''dfdx'') [EConst] [] []] [] []),
     SExpr (ECall (EName ''print'') [ECall (EName ''d2fdx'') [EConst] [] []] [] []),
     SExpr (ECall (EName ''print'') [ECall (EName ''d3fdx'') [EConst] [] []] [] []),
     SExpr (ECall (EName ''print'') [ECall (EName ''d4fdx'') [EConst] [] []] [] [])]"

text \<open>Code cell 5 (lines 140 to 155).\<close>

definition auto_differentiation_cell5 :: "stmt list" where
  "auto_differentiation_cell5 =
    [SAssign [''key''] (ECall (EAttr (EAttr (EName ''jax'') ''random'') ''key'') [EConst] [] []),
     SDef ''sigmoid'' [''x''] []
       [SReturn (EOp [EOp [ECall (EAttr (EName ''jnp'') ''tanh'') [EOp [EName ''x'']] [] []]])],
     SDef ''predict'' [''W'', ''b'', ''inputs''] []
       [SReturn (ECall (EName ''sigmoid'') [EOp [ECall (EAttr (EName ''jnp'') ''dot'') [EName ''inputs'',
        EName ''W''] [] [], EName ''b'']] [] [])],
     SAssign [''inputs''] (ECall (EAttr (EName ''jnp'') ''array'') [EOp [EOp [], EOp [EOp []],
     EOp [EOp []], EOp [EOp []]]] [] []),
     SAssign [''targets''] (ECall (EAttr (EName ''jnp'') ''array'') [EOp []] [] [])]"

text \<open>Code cell 6 (lines 164 to 168).\<close>

definition auto_differentiation_cell6 :: "stmt list" where
  "auto_differentiation_cell6 =
    [SDef ''loss'' [''W'', ''b''] []
       [SAssign [''preds''] (ECall (EName ''predict'') [EName ''W'', EName ''b'',
        EName ''inputs''] [] []),
        SAssign [''label_probs''] (EOp [EOp [EName ''preds'', EName ''targets''],
        EOp [EOp [EName ''preds''], EOp [EName ''targets'']]]),
        SReturn (EOp [ECall (EAttr (EName ''jnp'') ''sum'') [ECall (EAttr (EName ''jnp'') ''log'') [EName ''label_probs''] [] []] [] []])]]"

text \<open>Code cell 7 (lines 177 to 180).\<close>

definition auto_differentiation_cell7 :: "stmt list" where
  "auto_differentiation_cell7 =
    [SAssign [''key'', ''W_key'',
     ''b_key''] (ECall (EAttr (EAttr (EName ''jax'') ''random'') ''split'') [EName ''key'',
     EConst] [] []),
     SAssign [''W''] (ECall (EAttr (EAttr (EName ''jax'') ''random'') ''normal'') [EName ''W_key'',
     EOp []] [] []),
     SAssign [''b''] (ECall (EAttr (EAttr (EName ''jax'') ''random'') ''normal'') [EName ''b_key'',
     EOp []] [] [])]"

text \<open>Code cell 8 (lines 200 to 209).\<close>

definition auto_differentiation_cell8 :: "stmt list" where
  "auto_differentiation_cell8 =
    [SAssign [''W_grad''] (ECall (ECall (EName ''grad'') [EName ''loss''] [''argnums''] [EConst]) [EName ''W'',
     EName ''b''] [] []),
     SExpr (ECall (EName ''print'') [EOp [EName ''W_grad'']] [] []),
     SAssign [''b_grad''] (ECall (ECall (EName ''grad'') [EName ''loss'',
     EConst] [] []) [EName ''W'', EName ''b''] [] []),
     SExpr (ECall (EName ''print'') [EOp [EName ''b_grad'']] [] []),
     SAssign [''W_grad'', ''b_grad''] (ECall (ECall (EName ''grad'') [EName ''loss'',
     EOp []] [] []) [EName ''W'', EName ''b''] [] []),
     SExpr (ECall (EName ''print'') [EOp [EName ''W_grad'']] [] []),
     SExpr (ECall (EName ''print'') [EOp [EName ''b_grad'']] [] [])]"

text \<open>Code cell 9 (lines 235 to 240).\<close>

definition auto_differentiation_cell9 :: "stmt list" where
  "auto_differentiation_cell9 =
    [SDef ''loss2'' [''param_dict''] []
       [SAssign [''preds''] (ECall (EName ''predict'') [EOp [EName ''param_dict''],
        EOp [EName ''param_dict''], EName ''inputs''] [] []),
        SAssign [''label_probs''] (EOp [EOp [EName ''preds'', EName ''targets''],
        EOp [EOp [EName ''preds''], EOp [EName ''targets'']]]),
        SReturn (EOp [ECall (EAttr (EName ''jnp'') ''sum'') [ECall (EAttr (EName ''jnp'') ''log'') [EName ''label_probs''] [] []] [] []])],
     SExpr (ECall (EName ''print'') [ECall (ECall (EName ''grad'') [EName ''loss2''] [] []) [EOp [EName ''W'',
     EName ''b'']] [] []] [] [])]"

text \<open>Code cell 10 (lines 266 to 269).\<close>

definition auto_differentiation_cell10 :: "stmt list" where
  "auto_differentiation_cell10 =
    [SAssign [''loss_value'',
     ''Wb_grad''] (ECall (ECall (EAttr (EName ''jax'') ''value_and_grad'') [EName ''loss'',
     EOp []] [] []) [EName ''W'', EName ''b''] [] []),
     SExpr (ECall (EName ''print'') [EOp [EName ''loss_value'']] [] []),
     SExpr (ECall (EName ''print'') [EOp [EName ''Wb_grad'']] [] []),
     SExpr (ECall (EName ''print'') [EOp [ECall (EName ''loss'') [EName ''W'',
     EName ''b''] [] []]] [] [])]"

text \<open>Code cell 11 (lines 296 to 311).\<close>

definition auto_differentiation_cell11 :: "stmt list" where
  "auto_differentiation_cell11 =
    [SAssign [''eps''] (EConst),
     SAssign [''b_grad_numerical''] (EOp [EOp [ECall (EName ''loss'') [EName ''W'',
     EOp [EName ''b'', EOp [EName ''eps'']]] [] [], ECall (EName ''loss'') [EName ''W'',
     EOp [EName ''b'', EOp [EName ''eps'']]] [] []], EName ''eps'']),
     SExpr (ECall (EName ''print'') [EConst, EName ''b_grad_numerical''] [] []),
     SExpr (ECall (EName ''print'') [EConst, ECall (ECall (EName ''grad'') [EName ''loss'',
     EConst] [] []) [EName ''W'', EName ''b''] [] []] [] []),
     SAssign [''key'',
     ''subkey''] (ECall (EAttr (EAttr (EName ''jax'') ''random'') ''split'') [EName ''key''] [] []),
     SAssign [''vec''] (ECall (EAttr (EAttr (EName ''jax'') ''random'') ''normal'') [EName ''subkey'',
     EAttr (EName ''W'') ''shape''] [] []),
     SAssign [''unitvec''] (EOp [EName ''vec'',
     ECall (EAttr (EName ''jnp'') ''sqrt'') [ECall (EAttr (EName ''jnp'') ''vdot'') [EName ''vec'',
     EName ''vec''] [] []] [] []]),
     SAssign [''W_grad_numerical''] (EOp [EOp [ECall (EName ''loss'') [EOp [EName ''W'',
     EOp [EOp [EName ''eps''], EName ''unitvec'']], EName ''b''] [] [],
     ECall (EName ''loss'') [EOp [EName ''W'', EOp [EOp [EName ''eps''], EName ''unitvec'']],
     EName ''b''] [] []], EName ''eps'']),
     SExpr (ECall (EName ''print'') [EConst, EName ''W_grad_numerical''] [] []),
     SExpr (ECall (EName ''print'') [EConst,
     ECall (EAttr (EName ''jnp'') ''vdot'') [ECall (ECall (EName ''grad'') [EName ''loss''] [] []) [EName ''W'',
     EName ''b''] [] [], EName ''unitvec''] [] []] [] [])]"

text \<open>Code cell 12 (empty cell).\<close>

definition auto_differentiation_cell12 :: "stmt list" where
  "auto_differentiation_cell12 =
    []"

definition auto_differentiation :: "stmt list list" where
  "auto_differentiation =
    [auto_differentiation_cell0, auto_differentiation_cell1, auto_differentiation_cell2,
     auto_differentiation_cell3, auto_differentiation_cell4, auto_differentiation_cell5,
     auto_differentiation_cell6, auto_differentiation_cell7, auto_differentiation_cell8,
     auto_differentiation_cell9, auto_differentiation_cell10, auto_differentiation_cell11,
     auto_differentiation_cell12]"

subsection \<open>Notebook \<open>advanced_autodiff\<close> (\<^verbatim>\<open>src/unnamed/part_000\<close>)\<close>

text \<open>Code cell 0 (lines 9 to 14).\<close>

definition advanced_autodiff_cell0 :: "stmt list" where
  "advanced_autodiff_cell0 =
    [SImport [''jax''],
     SImport [''jnp''],
     SImport [''grad'', ''jit'', ''vmap''],
     SImport [''random''],
     SAssign [''key''] (ECall (EAttr (EName ''random'') ''key'') [EConst] [] [])]"

text \<open>Code cell 1 (lines 45 to 50).\<close>

definition advanced_autodiff_cell1 :: "stmt list" where
  "advanced_autodiff_cell1 =
    [SDef ''hessian'' [''f''] []
       [SReturn (ECall (EAttr (EName ''jax'') ''jacfwd'') [ECall (EAttr (EName ''jax'') ''grad'') [EName ''f''] [] []] [] [])],
     SDef ''f'' [''x''] []
       [SReturn (ECall (EAttr (EName ''jnp'') ''dot'') [EName ''x'', EName ''x''] [] [])],
     SExpr (ECall (ECall (EName ''hessian'') [EName ''f''] [] []) [ECall (EAttr (EName ''jnp'') ''array'') [EOp []] [] []] [] [])]"

text \<open>Code cell 2 (lines 66 to 72).\<close>

definition advanced_autodiff_cell2 :: "stmt list" where
  "advanced_autodiff_cell2 =
    [SDef ''meta_loss_fn'' [''params'', ''data''] []
       [SExpr (EConst),
        SAssign [''grads''] (ECall (ECall (EAttr (EName ''jax'') ''grad'') [EName ''loss_fn''] [] []) [EName ''params'',
        EName ''data''] [] []),
        SReturn (ECall (EName ''loss_fn'') [EOp [EName ''params'', EOp [EName ''lr'',
        EName ''grads'']], EName ''data''] [] [])],
     SAssign [''meta_grads''] (ECall (ECall (EAttr (EName ''jax'') ''grad'') [EName ''meta_loss_fn''] [] []) [EName ''params'',
     EName ''data''] [] [])]"

text \<open>Code cell 3 (lines 108 to 115).\<close>

definition advanced_autodiff_cell3 :: "stmt list" where
  "advanced_autodiff_cell3 =
    [SAssign [''value_fn''] (ELambda [''theta'',
     ''state''] (ECall (EAttr (EName ''jnp'') ''dot'') [EName ''theta'',
     EName ''state''] [] [])),
     SAssign [''theta''] (ECall (EAttr (EName ''jnp'') ''array'') [EOp [EOp []]] [] []),
     SAssign [''s_tm1''] (ECall (EAttr (EName ''jnp'') ''array'') [EOp [EOp []]] [] []),
     SAssign [''r_t''] (ECall (EAttr (EName ''jnp'') ''array'') [EConst] [] []),
     SAssign [''s_t''] (ECall (EAttr (EName ''jnp'') ''array'') [EOp []] [] [])]"

text \<open>Code cell 4 (lines 135 to 143).\<close>

definition advanced_autodiff_cell4 :: "stmt list" where
  "advanced_autodiff_cell4 =
    [SDef ''td_loss'' [''theta'', ''s_tm1'', ''r_t'', ''s_t''] []
       [SAssign [''v_tm1''] (ECall (EName ''value_fn'') [EName ''theta'',
        EName ''s_tm1''] [] []),
        SAssign [''target''] (EOp [EName ''r_t'', ECall (EName ''value_fn'') [EName ''theta'',
        EName ''s_t''] [] []]),
        SReturn (EOp [EOp [],
        EOp [EOp [ECall (EAttr (EAttr (EName ''jax'') ''lax'') ''stop_gradient'') [EName ''target''] [] [],
        EName ''v_tm1'']]])],
     SAssign [''td_update''] (ECall (EAttr (EName ''jax'') ''grad'') [EName ''td_loss''] [] []),
     SAssign [''delta_theta''] (ECall (EName ''td_update'') [EName ''theta'', EName ''s_tm1'',
     EName ''r_t'', EName ''s_t''] [] []),
     SExpr (EName ''delta_theta'')]"

text \<open>Code cell 5 (lines 163 to 166).\<close>

definition advanced_autodiff_cell5 :: "stmt list" where
  "advanced_autodiff_cell5 =
    [SAssign [''s_grad''] (ECall (ECall (EAttr (EName ''jax'') ''grad'') [EName ''value_fn''] [] []) [EName ''theta'',
     EName ''s_tm1''] [] []),
     SAssign [''delta_theta''] (EOp [EOp [EOp [EName ''r_t'',
     ECall (EName ''value_fn'') [EName ''theta'', EName ''s_t''] [] []],
     ECall (EName ''value_fn'') [EName ''theta'', EName ''s_tm1''] [] []], EName ''s_grad'']),
     SExpr (EName ''delta_theta'')]"

text \<open>Code cell 6 (lines 197 to 211).\<close>

definition advanced_autodiff_cell6 :: "stmt list" where
  "advanced_autodiff_cell6 =
    [SDef ''f'' [''x''] []
       [SReturn (ECall (EAttr (EName ''jnp'') ''round'') [EName ''x''] [] [])],
     SDef ''straight_through_f'' [''x''] []
       [SAssign [''zero''] (EOp [EName ''x'',
        ECall (EAttr (EAttr (EName ''jax'') ''lax'') ''stop_gradient'') [EName ''x''] [] []]),
        SReturn (EOp [EName ''zero'',
        ECall (EAttr (EAttr (EName ''jax'') ''lax'') ''stop_gradient'') [ECall (EName ''f'') [EName ''x''] [] []] [] []])],
     SExpr (ECall (EName ''print'') [EConst, ECall (EName ''f'') [EConst] [] []] [] []),
     SExpr (ECall (EName ''print'') [EConst,
     ECall (EName ''straight_through_f'') [EConst] [] []] [] []),
     SExpr (ECall (EName ''print'') [EConst,
     ECall (ECall (EAttr (EName ''jax'') ''grad'') [EName ''f''] [] []) [EConst] [] []] [] []),
     SExpr (ECall (EName ''print'') [EConst,
     ECall (ECall (EAttr (EName ''jax'') ''grad'') [EName ''straight_through_f''] [] []) [EConst] [] []] [] [])]"

text \<open>Code cell 7 (lines 229 to 230).\<close>

definition advanced_autodiff_cell7 :: "stmt list" where
  "advanced_autodiff_cell7 =
    [SDef ''hvp'' [''f'', ''x'', ''v''] []
       [SReturn (ECall (ECall (EName ''grad'') [ELambda [''x''] (ECall (EAttr (EName ''jnp'') ''vdot'') [ECall (ECall (EName ''grad'') [EName ''f''] [] []) [EName ''x''] [] [],
        EName ''v''] [] [])] [] []) [EName ''x''] [] [])]]"

text \<open>Code cell 8 (lines 263 to 295).\<close>

definition advanced_autodiff_cell8 :: "stmt list" where
  "advanced_autodiff_cell8 =
    [SImport [''jacfwd'', ''jacrev''],
     SDef ''sigmoid'' [''x''] []
       [SReturn (EOp [EOp [ECall (EAttr (EName ''jnp'') ''tanh'') [EOp [EName ''x'']] [] []]])],
     SDef ''predict'' [''W'', ''b'', ''inputs''] []
       [SReturn (ECall (EName ''sigmoid'') [EOp [ECall (EAttr (EName ''jnp'') ''dot'') [EName ''inputs'',
        EName ''W''] [] [], EName ''b'']] [] [])],
     SAssign [''inputs''] (ECall (EAttr (EName ''jnp'') ''array'') [EOp [EOp [], EOp [EOp []],
     EOp [EOp []], EOp [EOp []]]] [] []),
     SAssign [''key'', ''W_key'',
     ''b_key''] (ECall (EAttr (EName ''random'') ''split'') [EName ''key'', EConst] [] []),
     SAssign [''W''] (ECall (EAttr (EName ''random'') ''normal'') [EName ''W_key'',
     EOp []] [] []),
     SAssign [''b''] (ECall (EAttr (EName ''random'') ''normal'') [EName ''b_key'',
     EOp []] [] []),
     SAssign [''f''] (ELambda [''W''] (ECall (EName ''predict'') [EName ''W'', EName ''b'',
     EName ''inputs''] [] [])),
     SAssign [''J''] (ECall (ECall (EName ''jacfwd'') [EName ''f''] [] []) [EName ''W''] [] []),
     SExpr (ECall (EName ''print'') [EConst, EAttr (EName ''J'') ''shape''] [] []),
     SExpr (ECall (EName ''print'') [EName ''J''] [] []),
     SAssign [''J''] (ECall (ECall (EName ''jacrev'') [EName ''f''] [] []) [EName ''W''] [] []),
     SExpr (ECall (EName ''print'') [EConst, EAttr (EName ''J'') ''shape''] [] []),
     SExpr (ECall (EName ''print'') [EName ''J''] [] [])]"

text \<open>Code cell 9 (lines 332 to 340).\<close>

definition advanced_autodiff_cell9 :: "stmt list" where
  "advanced_autodiff_cell9 =
    [SDef ''predict_dic'' [''params'', ''inputs''] []
       [SReturn (ECall (EName ''predict'') [EOp [EName ''params''], EOp [EName ''params''],
        EName ''inputs''] [] [])],
     SAssign [''J_dict''] (ECall (ECall (EName ''jacrev'') [EName ''predict_dic''] [] []) [EOp [EName ''W'',
     EName ''b''], EName ''inputs''] [] []),
     SFor [''k'', ''v''] (ECall (EAttr (EName ''J_dict'') ''items'') [] [] [])
       [SExpr (ECall (EName ''print'') [ECall (EAttr (EConst) ''format'') [EName ''k''] [] []] [] []),
        SExpr (ECall (EName ''print'') [EName ''v''] [] [])]]"

text \<open>Code cell 10 (lines 381 to 386).\<close>

definition advanced_autodiff_cell10 :: "stmt list" where
  "advanced_autodiff_cell10 =
    [SDef ''hessian'' [''f''] []
       [SReturn (ECall (EName ''jacfwd'') [ECall (EName ''jacrev'') [EName ''f''] [] []] [] [])],
     SAssign [''H''] (ECall (ECall (EName ''hessian'') [EName ''f''] [] []) [EName ''W''] [] []),
     SExpr (ECall (EName ''print'') [EConst, EAttr (EName ''H'') ''shape''] [] []),
     SExpr (ECall (EName ''print'') [EName ''H''] [] [])]"

text \<open>Code cell 11 (empty cell).\<close>

definition advanced_autodiff_cell11 :: "stmt list" where
  "advanced_autodiff_cell11 =
    []"

definition advanced_autodiff :: "stmt list list" where
  "advanced_autodiff =
    [advanced_autodiff_cell0, advanced_autodiff_cell1, advanced_autodiff_cell2,
     advanced_autodiff_cell3, advanced_autodiff_cell4, advanced_autodiff_cell5,
     advanced_autodiff_cell6, advanced_autodiff_cell7, advanced_autodiff_cell8,
     advanced_autodiff_cell9, advanced_autodiff_cell10, advanced_autodiff_cell11]"

subsection \<open>Notebook \<open>control_flow\<close> (\<^verbatim>\<open>src/unnamed/part_001\<close>)\<close>

text \<open>Code cell 0 (lines 18 to 19).\<close>

definition control_flow_cell0 :: "stmt list" where
  "control_flow_cell0 =
    [SImport [''grad'', ''jit''],
     SImport [''jnp'']]"

text \<open>Code cell 1 (lines 36 to 41).\<close>

definition control_flow_cell1 :: "stmt list" where
  "control_flow_cell1 =
    [SDef ''f'' [''x''] [EName ''jit'']
       [SFor [''i''] (ECall (EName ''range'') [EConst] [] [])
          [SAssign [''x''] (EOp [EName ''x''])],
        SReturn (EName ''x'')],
     SExpr (ECall (EName ''print'') [ECall (EName ''f'') [EConst] [] []] [] [])]"

text \<open>Code cell 2 (lines 58 to 64).\<close>

definition control_flow_cell2 :: "stmt list" where
  "control_flow_cell2 =
    [SDef ''g'' [''x''] [EName ''jit'']
       [SAssign [''y''] (EConst),
        SFor [''i''] (ECall (EName ''range'') [EOp [EAttr (EName ''x'') ''shape'']] [] [])
          [SAssign [''y''] (EOp [EName ''y'', EOp [EName ''x'', EName ''i'']])],
        SReturn (EName ''y'')],
     SExpr (ECall (EName ''print'') [ECall (EName ''g'') [ECall (EAttr (EName ''jnp'') ''array'') [EOp []] [] []] [] []] [] [])]"

text \<open>Code cell 3 (lines 73 to 86, all of it commented out).\<close>

definition control_flow_cell3 :: "stmt list" where
  "control_flow_cell3 =
    []"

text \<open>Code cell 4 (lines 117 to 126).\<close>

definition control_flow_cell4 :: "stmt list" where
  "control_flow_cell4 =
    [SDef ''f'' [''x''] [EName ''jit'']
       [SReturn (EOp [EName ''x''])],
     SAssign [''result1''] (ECall (EName ''f'') [ECall (EAttr (EName ''jnp'') ''array'') [EOp []] [''dtype''] [EAttr (EName ''jnp'') ''float32'']] [] []),
     SExpr (ECall (EName ''print'') [EName ''result1''] [] []),
     SAssign [''result2''] (ECall (EName ''f'') [ECall (EAttr (EName ''jnp'') ''array'') [EOp []] [''dtype''] [EAttr (EName ''jnp'') ''float32'']] [] []),
     SExpr (ECall (EName ''print'') [EName ''result2''] [] [])]"

text \<open>Code cell 5 (lines 144 to 151, all of it commented out).\<close>

definition control_flow_cell5 :: "stmt list" where
  "control_flow_cell5 =
    []"

text \<open>Code cell 6 (lines 182 to 190).\<close>

definition control_flow_cell6 :: "stmt list" where
  "control_flow_cell6 =
    [SDef ''f'' [''x''] []
       [SIf (EOp [EName ''x''])
          [SReturn (EOp [EOp [EName ''x'']])]
          [SReturn (EOp [EOp [], EName ''x''])]],
     SAssign [''f''] (ECall (EName ''jit'') [EName ''f''] [''static_argnames''] [EStr ''x'']),
     SExpr (ECall (EName ''print'') [ECall (EName ''f'') [EConst] [] []] [] [])]"

text \<open>Code cell 7 (lines 214 to 224).\<close>

definition control_flow_cell7 :: "stmt list" where
  "control_flow_cell7 =
    [SDef ''f'' [''x'', ''n''] []
       [SAssign [''y''] (EConst),
        SFor [''i''] (ECall (EName ''range'') [EName ''n''] [] [])
          [SAssign [''y''] (EOp [EName ''y'', EOp [EName ''x'', EName ''i'']])],
        SReturn (EName ''y'')],
     SAssign [''f_jitted''] (ECall (EName ''jit'') [EName ''f''] [''static_argnames''] [EStr ''n'']),
     SAssign [''result''] (ECall (EName ''f_jitted'') [ECall (EAttr (EName ''jnp'') ''array'') [EOp []] [] [],
     EConst] [] []),
     SExpr (ECall (EName ''print'') [EName ''result''] [] [])]"

text \<open>Code cell 8 (lines 247 to 252).\<close>

definition control_flow_cell8 :: "stmt list" where
  "control_flow_cell8 =
    [SDef ''cond'' [''pred'', ''true_fun'', ''false_fun'', ''arg''] []
       [SIf (EName ''pred'')
          [SReturn (ECall (EName ''true_fun'') [EName ''arg''] [] [])]
          [SReturn (ECall (EName ''false_fun'') [EName ''arg''] [] [])]]]"

text \<open>Code cell 9 (lines 272 to 276).\<close>

definition control_flow_cell9 :: "stmt list" where
  "control_flow_cell9 =
    [SImport [''lax''],
     SAssign [''operand''] (ECall (EAttr (EName ''jnp'') ''array'') [EOp []] [] []),
     SExpr (ECall (EAttr (EName ''lax'') ''cond'') [EConst, ELambda [''x''] (EOp [EName ''x'']),
     ELambda [''x''] (EOp [EName ''x'']), EName ''operand''] [] []),
     SExpr (ECall (EAttr (EName ''lax'') ''cond'') [EConst, ELambda [''x''] (EOp [EName ''x'']),
     ELambda [''x''] (EOp [EName ''x'']), EName ''operand''] [] [])]"

text \<open>Code cell 10 (lines 300 to 305).\<close>

definition control_flow_cell10 :: "stmt list" where
  "control_flow_cell10 =
    [SAssign [''condition''] (ECall (EAttr (EName ''jnp'') ''array'') [EOp []] [] []),
     SAssign [''on_true''] (ECall (EAttr (EName ''jnp'') ''array'') [EOp []] [] []),
     SAssign [''on_false''] (ECall (EAttr (EName ''jnp'') ''array'') [EOp [EOp [], EOp [],
     EOp []]] [] []),
     SAssign [''result''] (ECall (EAttr (EName ''lax'') ''select'') [EName ''condition'',
     EName ''on_true'', EName ''on_false''] [] []),
     SExpr (ECall (EName ''print'') [EName ''result''] [] [])]"

text \<open>Code cell 11 (lines 329 to 340).\<close>

definition control_flow_cell11 :: "stmt list" where
  "control_flow_cell11 =
    [SDef ''f1'' [''x''] []
       [SReturn (EOp [EName ''x''])],
     SDef ''f2'' [''x''] []
       [SReturn (EOp [EName ''x''])],
     SDef ''f3'' [''x''] []
       [SReturn (EOp [EName ''x''])],
     SAssign [''index''] (EConst),
     SAssign [''x''] (EConst),
     SAssign [''result''] (ECall (EAttr (EName ''lax'') ''switch'') [EName ''index'',
     EOp [EName ''f1'', EName ''f2'', EName ''f3''], EName ''x''] [] []),
     SExpr (ECall (EName ''print'') [EName ''result''] [] [])]"

text \<open>Code cell 12 (lines 364 to 370).\<close>

definition control_flow_cell12 :: "stmt list" where
  "control_flow_cell12 =
    [SAssign [''condition''] (ECall (EAttr (EName ''jnp'') ''array'') [EOp []] [] []),
     SAssign [''on_true''] (ECall (EAttr (EName ''jnp'') ''array'') [EOp []] [] []),
     SAssign [''on_false''] (ECall (EAttr (EName ''jnp'') ''array'') [EOp [EOp [], EOp [],
     EOp []]] [] []),
     SAssign [''result''] (ECall (EAttr (EName ''jnp'') ''where'') [EName ''condition'',
     EName ''on_true'', EName ''on_false''] [] []),
     SExpr (ECall (EName ''print'') [EName ''result''] [] [])]"

text \<open>Code cell 13 (lines 394 to 400).\<close>

definition control_flow_cell13 :: "stmt list" where
  "control_flow_cell13 =
    [SAssign [''x''] (ECall (EAttr (EName ''jnp'') ''array'') [EOp [EOp [], EOp [], EOp [],
     EOp []]] [] []),
     SAssign [''conditions''] (EOp [EOp [EName ''x''], EOp [EName ''x'']]),
     SAssign [''functions''] (EOp [ELambda [''x''] (EOp [EName ''x'']),
     ELambda [''x''] (EName ''x'')]),
     SAssign [''result''] (ECall (EAttr (EName ''jnp'') ''piecewise'') [EName ''x'',
     EName ''conditions'', EName ''functions''] [] []),
     SExpr (ECall (EName ''print'') [EName ''result''] [] [])]"

text \<open>Code cell 14 (lines 416 to 422).\<close>

definition control_flow_cell14 :: "stmt list" where
  "control_flow_cell14 =
    [SDef ''while_loop'' [''cond_fun'', ''body_fun'', ''init_val''] []
       [SAssign [''val''] (EName ''init_val''),
        SWhile (ECall (EName ''cond_fun'') [EName ''val''] [] [])
          [SAssign [''val''] (ECall (EName ''body_fun'') [EName ''val''] [] [])],
        SReturn (EName ''val'')]]"

text \<open>Code cell 15 (lines 439 to 444).\<close>

definition control_flow_cell15 :: "stmt list" where
  "control_flow_cell15 =
    [SAssign [''init_val''] (EConst),
     SAssign [''condition''] (ELambda [''x''] (EOp [EName ''x''])),
     SAssign [''function_body''] (ELambda [''x''] (EOp [EName ''x''])),
     SAssign [''result''] (ECall (EAttr (EName ''lax'') ''while_loop'') [EName ''condition'',
     EName ''function_body'', EName ''init_val''] [] []),
     SExpr (ECall (EName ''print'') [EName ''result''] [] [])]"

text \<open>Code cell 16 (lines 460 to 465).\<close>

definition control_flow_cell16 :: "stmt list" where
  "control_flow_cell16 =
    [SDef ''fori_loop'' [''start'', ''stop'', ''body_func'', ''init_val''] []
       [SAssign [''val''] (EName ''init_val''),
        SFor [''i''] (ECall (EName ''range'') [EName ''start'', EName ''stop''] [] [])
          [SAssign [''val''] (ECall (EName ''body_func'') [EName ''i'', EName ''val''] [] [])],
        SReturn (EName ''val'')]]"

text \<open>Code cell 17 (lines 485 to 489).\<close>

definition control_flow_cell17 :: "stmt list" where
  "control_flow_cell17 =
    [SAssign [''init_val''] (EConst),
     SAssign [''start''] (EConst),
     SAssign [''stop''] (EConst),
     SAssign [''function_body''] (ELambda [''i'', ''x''] (EOp [EName ''x'', EName ''i''])),
     SExpr (ECall (EAttr (EName ''lax'') ''fori_loop'') [EName ''start'', EName ''stop'',
     EName ''function_body'', EName ''init_val''] [] [])]"

text \<open>Code cell 18 (lines 516 to 526).\<close>

definition control_flow_cell18 :: "stmt list" where
  "control_flow_cell18 =
    [SDef ''python_check_positive_even'' [''x''] []
       [SAssign [''is_even''] (EOp [EOp [EName ''x'']]),
        SReturn (EBoolOp [EName ''is_even'', EOp [EName ''x'']])],
     SDef ''jax_check_positive_even'' [''x''] [EName ''jit'']
       [SAssign [''is_even''] (EOp [EOp [EName ''x'']]),
        SReturn (ECall (EAttr (EName ''jnp'') ''logical_and'') [EName ''is_even'',
        EOp [EName ''x'']] [] [])],
     SExpr (ECall (EName ''print'') [ECall (EName ''python_check_positive_even'') [EConst] [] []] [] []),
     SExpr (ECall (EName ''print'') [ECall (EName ''jax_check_positive_even'') [EConst] [] []] [] [])]"

text \<open>Code cell 19 (lines 543 to 545).\<close>

definition control_flow_cell19 :: "stmt list" where
  "control_flow_cell19 =
    [SAssign [''x''] (ECall (EAttr (EName ''jnp'') ''array'') [EOp []] [] []),
     SExpr (ECall (EName ''print'') [ECall (EName ''jax_check_positive_even'') [EName ''x''] [] []] [] [])]"

text \<open>Code cell 20 (lines 570 to 577).\<close>

definition control_flow_cell20 :: "stmt list" where
  "control_flow_cell20 =
    [SDef ''f'' [''x''] []
       [SIf (EOp [EName ''x''])
          [SReturn (EOp [EOp [EName ''x'']])]
          [SReturn (EOp [EOp [], EName ''x''])]],
     SExpr (ECall (EName ''print'') [ECall (ECall (EName ''grad'') [EName ''f''] [] []) [EConst] [] []] [] []),
     SExpr (ECall (EName ''print'') [ECall (ECall (EName ''grad'') [EName ''f''] [] []) [EConst] [] []] [] [])]"

text \<open>Code cell 21 (empty cell).\<close>

definition control_flow_cell21 :: "stmt list" where
  "control_flow_cell21 =
    []"

definition control_flow :: "stmt list list" where
  "control_flow =
    [control_flow_cell0, control_flow_cell1, control_flow_cell2, control_flow_cell3,
     control_flow_cell4, control_flow_cell5, control_flow_cell6, control_flow_cell7,
     control_flow_cell8, control_flow_cell9, control_flow_cell10, control_flow_cell11,
     control_flow_cell12, control_flow_cell13, control_flow_cell14, control_flow_cell15,
     control_flow_cell16, control_flow_cell17, control_flow_cell18, control_flow_cell19,
     control_flow_cell20, control_flow_cell21]"


subsection \<open>The transformations that the notebooks apply\<close>

text \<open>All calls that occur in an expression, those inside a \<open>lambda\<close> included.\<close>

fun calls_in :: "expr \<Rightarrow> expr list" where
  "calls_in (EName x) = []"
| "calls_in EConst = []"
| "calls_in (EStr _) = []"
| "calls_in (EAttr e _) = calls_in e"
| "calls_in (ECall f args kn kv) =
     ECall f args kn kv # calls_in f @ concat (map calls_in args) @ concat (map calls_in kv)"
| "calls_in (ELambda ps b) = calls_in b"
| "calls_in (EBoolOp es) = concat (map calls_in es)"
| "calls_in (EOp es) = concat (map calls_in es)"
| "calls_in (EMatMul a b) = calls_in a @ calls_in b"
| "calls_in (EComp ts it el) = calls_in it @ calls_in el"

fun stmt_calls :: "stmt \<Rightarrow> expr list"
  and block_calls :: "stmt list \<Rightarrow> expr list"
where
  "stmt_calls (SImport _) = []"
| "stmt_calls (SAssign ts e) = calls_in e"
| "stmt_calls (SStore t e) = calls_in e @ calls_in t"
| "stmt_calls (SAnn x e) = calls_in e"
| "stmt_calls (SExpr e) = calls_in e"
| "stmt_calls (SReturn e) = calls_in e"
| "stmt_calls SPass = []"
| "stmt_calls (SFor ts it body) = calls_in it @ block_calls body"
| "stmt_calls (SWhile c body) = calls_in c @ block_calls body"
| "stmt_calls (SIf c body orelse) = calls_in c @ block_calls body @ block_calls orelse"
| "stmt_calls (SDef name ps ds body) = concat (map calls_in ds) @ block_calls body"
| "stmt_calls (SClass name bases ds body) =
     concat (map calls_in ds) @ concat (map calls_in bases) @ block_calls body"
| "block_calls [] = []"
| "block_calls (s # ss) = stmt_calls s @ block_calls ss"


fun callee_name :: "expr \<Rightarrow> string" where
  "callee_name (EName x) = x"
| "callee_name (EAttr e a) = a"
| "callee_name _ = []"

definition imported_root :: "string list \<Rightarrow> expr \<Rightarrow> bool" where
  "imported_root imps e = (case root e of Some x \<Rightarrow> x \<in> set imps | None \<Rightarrow> False)"









subsection \<open>Products of an input with weights\<close>

text \<open>All names that occur in an expression.\<close>

fun names_deep :: "expr \<Rightarrow> string list" where
  "names_deep (EName x) = [x]"
| "names_deep EConst = []"
| "names_deep (EStr _) = []"
| "names_deep (EAttr e _) = names_deep e"
| "names_deep (ECall f args kn kv) =
     names_deep f @ concat (map names_deep args) @ concat (map names_deep kv)"
| "names_deep (ELambda ps b) = names_deep b"
| "names_deep (EBoolOp es) = concat (map names_deep es)"
| "names_deep (EOp es) = concat (map names_deep es)"
| "names_deep (EMatMul a b) = names_deep a @ names_deep b"
| "names_deep (EComp ts it el) = names_deep it @ names_deep el"

text \<open>The expressions of a statement, those of the statements nested in it included.\<close>

fun stmt_exprs :: "stmt \<Rightarrow> expr list"
  and block_exprs :: "stmt list \<Rightarrow> expr list"
where
  "stmt_exprs (SImport _) = []"
| "stmt_exprs (SAssign ts e) = [e]"
| "stmt_exprs (SStore t e) = [e, t]"
| "stmt_exprs (SAnn x e) = [e]"
| "stmt_exprs (SExpr e) = [e]"
| "stmt_exprs (SReturn e) = [e]"
| "stmt_exprs SPass = []"
| "stmt_exprs (SFor ts it body) = it # block_exprs body"
| "stmt_exprs (SWhile c body) = c # block_exprs body"
| "stmt_exprs (SIf c body orelse) = c # block_exprs body @ block_exprs orelse"
| "stmt_exprs (SDef name ps ds body) = ds @ block_exprs body"
| "stmt_exprs (SClass name bases ds body) = ds @ bases @ block_exprs body"
| "block_exprs [] = []"
| "block_exprs (s # ss) = stmt_exprs s @ block_exprs ss"




subsection \<open>Where Python converts a value to \<open>bool\<close>\<close>

text \<open>
  Python converts a value to \<open>bool\<close> in the tests of \<open>if\<close> and \<open>while\<close> and at the
  operands of \<open>and\<close> and \<open>or\<close>. The converted expressions of an expression and of a
  statement:
\<close>

fun boolops_in :: "expr \<Rightarrow> expr list" where
  "boolops_in (EName x) = []"
| "boolops_in EConst = []"
| "boolops_in (EStr _) = []"
| "boolops_in (EAttr e _) = boolops_in e"
| "boolops_in (ECall f args kn kv) =
     boolops_in f @ concat (map boolops_in args) @ concat (map boolops_in kv)"
| "boolops_in (ELambda ps b) = boolops_in b"
| "boolops_in (EBoolOp es) = es @ concat (map boolops_in es)"
| "boolops_in (EOp es) = concat (map boolops_in es)"
| "boolops_in (EMatMul a b) = boolops_in a @ boolops_in b"
| "boolops_in (EComp ts it el) = boolops_in it @ boolops_in el"

fun tests :: "stmt \<Rightarrow> expr list"
  and tests_block :: "stmt list \<Rightarrow> expr list"
where
  "tests (SImport _) = []"
| "tests (SAssign ts e) = boolops_in e"
| "tests (SStore t e) = boolops_in e @ boolops_in t"
| "tests (SAnn x e) = boolops_in e"
| "tests (SExpr e) = boolops_in e"
| "tests (SReturn e) = boolops_in e"
| "tests SPass = []"
| "tests (SFor ts it body) = boolops_in it @ tests_block body"
| "tests (SWhile c body) = c # boolops_in c @ tests_block body"
| "tests (SIf c body orelse) = c # boolops_in c @ tests_block body @ tests_block orelse"
| "tests (SDef name ps ds body) = concat (map boolops_in ds) @ tests_block body"
| "tests (SClass name bases ds body) =
     concat (map boolops_in ds) @ concat (map boolops_in bases) @ tests_block body"
| "tests_block [] = []"
| "tests_block (s # ss) = tests s @ tests_block ss"




text \<open>
  The names on whose value the body of a function branches: those that occur in an
  expression that the body converts to \<open>bool\<close>.
\<close>

definition branch_names :: "stmt \<Rightarrow> string list" where
  "branch_names d = remdups (concat (map names_deep (tests_block (def_body d))))"





subsection \<open>Functions traced with abstract arguments\<close>

text \<open>
  A function that a notebook hands to the framework may be run on abstract values:
  compilation, vectorisation, checkpointing, the printing of a traced program and the
  structured control flow of \<open>lax\<close> all do so. The exception is differentiation by \<open>grad\<close>
  and \<open>value_and_grad\<close> on their own: they run the function at the given point, on
  values that carry their number, and Python control flow on them works. Every other
  call of an imported library counts as tracing the functions among its arguments.
\<close>

definition value_carrying_apis :: "string list" where
  "value_carrying_apis = [''grad'', ''value_and_grad'']"

definition is_tracing :: "string list \<Rightarrow> expr \<Rightarrow> bool" where
  "is_tracing imps e \<longleftrightarrow> imported_root imps e \<and> callee_name e \<notin> set value_carrying_apis"

text \<open>The names that a call declares static.\<close>

fun strs :: "expr \<Rightarrow> string list" where
  "strs (EStr s) = [s]"
| "strs (EOp es) = concat (map strs es)"
| "strs _ = []"

fun static_names :: "string list \<Rightarrow> expr list \<Rightarrow> string list" where
  "static_names (k # kn) (v # kv) =
     (if k = ''static_argnames'' then strs v else []) @ static_names kn kv"
| "static_names _ _ = []"

text \<open>
  The function that a name stands for while the cells run, as the name of its
  definition and the names it branches on: a \<open>def\<close> binds its name to itself, an
  assignment binds its targets to the function that its right-hand side mentions first
  (\<open>grad_function = jax.grad(simple_graph)\<close>), or to none.
\<close>

fun resolve :: "(string \<times> string \<times> string list) list \<Rightarrow> string list \<Rightarrow> (string \<times> string list) list" where
  "resolve fenv [] = []"
| "resolve fenv (x # xs) =
     (case map_of fenv x of Some d \<Rightarrow> d # resolve fenv xs | None \<Rightarrow> resolve fenv xs)"

fun rebind ::
  "string list \<Rightarrow> (string \<times> string list) list \<Rightarrow> (string \<times> string \<times> string list) list
     \<Rightarrow> (string \<times> string \<times> string list) list" where
  "rebind ts [] fenv = filter (\<lambda>b. fst b \<notin> set ts) fenv"
| "rebind ts (d # ds) fenv = map (\<lambda>x. (x, d)) ts @ fenv"

fun update_fenv ::
  "stmt \<Rightarrow> (string \<times> string \<times> string list) list \<Rightarrow> (string \<times> string \<times> string list) list" where
  "update_fenv (SDef name ps ds body) fenv =
     (name, name, branch_names (SDef name ps ds body)) # fenv"
| "update_fenv (SAssign ts e) fenv = rebind ts (resolve fenv (names_deep e)) fenv"
| "update_fenv _ fenv = fenv"

text \<open>
  The traced functions of a statement, each with the tracing call, the names it
  branches on and the arguments that the call declares static: a \<open>def\<close> under a tracing
  decorator, and every function mentioned in the arguments of a tracing call.
\<close>

fun traced_of_call ::
  "string list \<Rightarrow> (string \<times> string \<times> string list) list \<Rightarrow> expr
     \<Rightarrow> (string \<times> string \<times> string list \<times> string list) list" where
  "traced_of_call imps fenv (ECall f args kn kv) =
     (if is_tracing imps f
      then map (\<lambda>d. (callee_name f, fst d, snd d, static_names kn kv))
             (resolve fenv (concat (map names_deep args)))
      else [])"
| "traced_of_call imps fenv _ = []"

fun traced_of_decorators ::
  "string list \<Rightarrow> stmt \<Rightarrow> (string \<times> string \<times> string list \<times> string list) list" where
  "traced_of_decorators imps (SDef name ps ds body) =
     map (\<lambda>d. (callee_name d, name, branch_names (SDef name ps ds body), []))
       (filter (is_tracing imps) ds)"
| "traced_of_decorators imps _ = []"

fun traced_walk ::
  "string list \<Rightarrow> stmt list \<Rightarrow> (string \<times> string \<times> string list) list
     \<Rightarrow> (string \<times> string \<times> string list \<times> string list) list
     \<Rightarrow> (string \<times> string \<times> string list \<times> string list) list" where
  "traced_walk imps [] fenv acc = acc"
| "traced_walk imps (s # ss) fenv acc =
     traced_walk imps ss (update_fenv s fenv)
       (acc @ traced_of_decorators imps s @ concat (map (traced_of_call imps fenv) (stmt_calls s)))"

definition traced :: "stmt list list \<Rightarrow> (string \<times> string \<times> string list \<times> string list) list" where
  "traced nb = traced_walk (notebook_imports nb) (concat nb) [] []"


section \<open>Properties of the convolution notebook\<close>













text \<open>
  The cell of the notebook that calls both functions on \<open>xs = stack([x, x])\<close>,
  \<open>ws = stack([w, w])\<close> with \<open>x = arange(5)\<close>, \<open>w = [2., 3., 4.]\<close> shows
  \<open>[[11., 20., 29.], [11., 20., 29.]]\<close> for each; with exact arithmetic the model
  computes the same.
\<close>

lemma notebook_output_batched:
  "manually_batched_convolve exact_dot (Array2 5 [[0, 1, 2, 3, 4], [0, 1, 2, 3, 4]])
       (Array2 3 [[2, 3, 4], [2, 3, 4]])
   = Inr (Array2 3 [[11, 20, 29], [11, 20, 29]])"
  by code_simp

lemma notebook_output_vectorized:
  "manually_vectorized_convolve (*) sum_list (Array2 5 [[0, 1, 2, 3, 4], [0, 1, 2, 3, 4 :: int]])
       (Array2 3 [[2, 3, 4], [2, 3, 4]])
   = Inr (Array2 3 [[11, 20, 29], [11, 20, 29]])"
  by code_simp




section \<open>Properties of the straight-through estimator\<close>

text \<open>
  Where \<open>x - x\<close> is a zero that added to the rounded \<open>x\<close> returns it, the estimator has
  the forward value of \<open>f\<close>.
\<close>

lemma straight_through_f_finite:
  assumes "fin_sub F a a = Fin z" and "fadd F (Fin z) (fin_round F a) = fin_round F a"
  shows "primal (straight_through_f F \<lparr>primal = Fin a, tangent = t\<rparr>)
         = primal (f_round F \<lparr>primal = Fin a, tangent = t\<rparr>)"
  using assms
  by (simp add: straight_through_f_def straight_through_zero_def f_round_def jnp_round_def
      stop_gradient_def dadd_def dsub_def)

text \<open>
  Claim C9 says what the comment in \<open>straight_through_f\<close> says: the expression
  \<open>x - stop_gradient(x)\<close> is exactly zero for every input, so that the function has the
  forward value of \<open>f\<close>. The code does not keep this at an infinite input, whatever the
  arithmetic on finite numbers: \<open>inf - inf\<close> is not-a-number, and the function returns
  not-a-number where \<open>f\<close> returns the infinity.
\<close>

theorem straight_through_f_at_infinity:
  "primal (straight_through_zero F \<lparr>primal = PInf, tangent = t\<rparr>) = NaN
   \<and> primal (straight_through_f F \<lparr>primal = PInf, tangent = t\<rparr>) = NaN
   \<and> primal (f_round F \<lparr>primal = PInf, tangent = t\<rparr>) = PInf
   \<and> primal (straight_through_f F \<lparr>primal = NInf, tangent = t\<rparr>) = NaN
   \<and> primal (f_round F \<lparr>primal = NInf, tangent = t\<rparr>) = NInf"
  by (simp add: straight_through_f_def straight_through_zero_def f_round_def jnp_round_def
      stop_gradient_def dadd_def dsub_def)

section \<open>Properties of the pytree notebook\<close>

lemma tree_map_leaf: "is_leaf v \<Longrightarrow> tree_map f v rest = Inr (f (v # rest))"
  by (cases v) simp_all

lemma tree_map_items_leaves:
  "list_all (\<lambda>kv. is_leaf (snd kv)) kvs \<Longrightarrow>
   tree_map_items f kvs (map (\<lambda>d. map (g d) (map fst kvs)) rest)
     = Inr (map (\<lambda>kv. (fst kv, f (snd kv # map (\<lambda>d. g d (fst kv)) rest))) kvs)"
proof (induction kvs)
  case Nil
  then show ?case by simp
next
  case (Cons kv kvs)
  obtain k v where kv: "kv = (k, v)" by (cases kv)
  have leaf: "is_leaf v" and rest_leaves: "list_all (\<lambda>kv. is_leaf (snd kv)) kvs"
    using Cons.prems kv by simp_all
  have hd: "map hd (map (\<lambda>d. g d k # map (g d) (map fst kvs)) rest) = map (\<lambda>d. g d k) rest"
    by (simp add: comp_def)
  have tl: "map tl (map (\<lambda>d. g d k # map (g d) (map fst kvs)) rest)
            = map (\<lambda>d. map (g d) (map fst kvs)) rest"
    by (simp add: comp_def)
  show ?case
    by (simp only: kv tree_map_items.simps hd tl Cons.IH [OF rest_leaves]
        tree_map_leaf [OF leaf] sum.case list.map fst_conv snd_conv)
qed

lemma those_all_map_Some: "those_all (map (\<lambda>x. Some (h x)) xs) = Some (map h xs)"
  by (induction xs) simp_all

lemma those_all_dict_children:
  assumes "list_all (\<lambda>d. distinct (map fst d) \<and> set (map fst d) = set ks) rest"
  shows "those_all (map (dict_children ks) (map PyDict rest))
         = Some (map (\<lambda>d. map (\<lambda>k. the (map_of d k)) ks) rest)"
  using assms by (induction rest) simp_all

lemma map_insort_key_fst: "map f (insort_key f x xs) = insort (f x) (map f xs)"
  by (induction xs) simp_all

lemma map_sort_key_fst: "map f (sort_key f xs) = sort (map f xs)"
  by (induction xs) (simp_all add: map_insort_key_fst)

lemma map_of_sort_key:
  assumes "distinct (map fst xs)"
  shows "map_of (sort_key fst xs) = map_of xs"
proof -
  have "distinct (map fst (sort_key fst xs))"
    using assms by (simp add: map_sort_key_fst)
  then show ?thesis
    using assms by (simp add: map_of_inject_set)
qed

text \<open>
  The cell that defines \<open>tree_transpose\<close> applies it to
  \<open>[dict(t=1, obs=3), dict(t=2, obs=4)]\<close> and shows \<open>{'obs': [3, 4], 't': [1, 2]}\<close>.
\<close>

lemma notebook_output_tree_transpose:
  "tree_transpose [PyDict [(''t'', PyInt 1), (''obs'', PyInt 3)],
                   PyDict [(''t'', PyInt 2), (''obs'', PyInt 4)]]
   = Inr (PyDict [(''obs'', PyList [PyInt 3, PyInt 4]), (''t'', PyList [PyInt 1, PyInt 2])])"
  by code_simp

text \<open>
  Claim C8, as stated, for every non-empty list of dictionaries with the same keys: it
  fails when a value of the dictionaries is itself a list, tuple, dictionary or \<open>None\<close>.
  \<open>jax.tree.map\<close> descends into such a value, so for
  \<open>[{'a': [1, 2]}, {'a': [3, 4]}]\<close> the key \<open>'a'\<close> is mapped to \<open>[[1, 3], [2, 4]]\<close> and
  not to the list \<open>[[1, 2], [3, 4]]\<close> of the two values.
\<close>

theorem tree_transpose_nested_values:
  "tree_transpose [PyDict [(''a'', PyList [PyInt 1, PyInt 2])],
                   PyDict [(''a'', PyList [PyInt 3, PyInt 4])]]
     = Inr (PyDict [(''a'', PyList [PyList [PyInt 1, PyInt 3], PyList [PyInt 2, PyInt 4]])])
   \<and> tree_transpose [PyDict [(''a'', PyList [PyInt 1, PyInt 2])],
                     PyDict [(''a'', PyList [PyInt 3, PyInt 4])]]
     \<noteq> Inr (PyDict [(''a'', PyList [PyList [PyInt 1, PyInt 2], PyList [PyInt 3, PyInt 4]])])"
  by code_simp

text \<open>
  Claim C8, amended: for every non-empty list of dictionaries that all have the same
  keys, where the values of the first dictionary are leaves (numbers, strings, arrays:
  no list, tuple, dictionary or \<open>None\<close>), \<open>tree_transpose\<close> returns a single dictionary,
  with the keys in sorted order, that maps each key \<open>k\<close> to the list of the \<open>k\<close>-values of
  the input dictionaries in their original order.
\<close>

theorem tree_transpose_dicts:
  assumes "list_all (\<lambda>kv. is_leaf (snd kv)) d"
    and "distinct (map fst d)"
    and "list_all (\<lambda>d'. distinct (map fst d') \<and> set (map fst d') = set (map fst d)) rest"
  shows "\<exists>r. tree_transpose (map PyDict (d # rest)) = Inr (PyDict r)
           \<and> map fst r = sort (map fst d)
           \<and> list_all (\<lambda>k. map_of r k = Some (PyList (map (\<lambda>d'. the (map_of d' k)) (d # rest))))
                (map fst d)"
proof -
  let ?col = "\<lambda>kv. (fst kv, PyList (snd kv # map (\<lambda>d'. the (map_of d' (fst kv))) rest))"
  let ?unsorted = "map ?col d"
  let ?sorted = "sort_key fst ?unsorted"
  have keys0: "map fst ?unsorted = map fst d" by (simp add: comp_def)
  have items: "tree_map_items (\<lambda>xs. PyList xs) d
                 (map (\<lambda>d'. map (\<lambda>k. the (map_of d' k)) (map fst d)) rest) = Inr ?unsorted"
    using tree_map_items_leaves [OF assms(1), of "\<lambda>xs. PyList xs" "\<lambda>d' k. the (map_of d' k)" rest]
    by simp
  have run: "tree_transpose (map PyDict (d # rest)) = Inr (PyDict ?sorted)"
    by (simp only: tree_transpose_def list.map list.case tree_map.simps
        those_all_dict_children [OF assms(3)] option.case items sum.case)
  have keys: "map fst ?sorted = sort (map fst d)"
    by (simp only: map_sort_key_fst keys0)
  have lookup: "map_of ?sorted k = Some (PyList (map (\<lambda>d'. the (map_of d' k)) (d # rest)))"
    if k: "k \<in> set (map fst d)" for k
  proof -
    from k obtain v where kv: "(k, v) \<in> set d" by auto
    have v: "map_of d k = Some v"
      using assms(2) kv by (rule map_of_is_SomeI)
    have "(k, PyList (v # map (\<lambda>d'. the (map_of d' k)) rest)) \<in> set ?unsorted"
      using kv by force
    moreover have "distinct (map fst ?unsorted)" using assms(2) by (simp only: keys0)
    ultimately have "map_of ?unsorted k = Some (PyList (v # map (\<lambda>d'. the (map_of d' k)) rest))"
      by (intro map_of_is_SomeI)
    moreover have "map_of ?sorted = map_of ?unsorted"
      using assms(2) by (intro map_of_sort_key) (simp only: keys0)
    ultimately show ?thesis using v by simp
  qed
  have "list_all (\<lambda>k. map_of ?sorted k = Some (PyList (map (\<lambda>d'. the (map_of d' k)) (d # rest))))
          (map fst d)"
    unfolding list_all_iff using lookup by blast
  with run keys show ?thesis by blast
qed

theorem tree_transpose_dicts_witness:
  "\<exists>r. tree_transpose [PyDict [(''t'', PyInt 1), (''obs'', PyInt 3)],
                       PyDict [(''t'', PyInt 2), (''obs'', PyInt 4)]] = Inr (PyDict r)
      \<and> map fst r = [''obs'', ''t'']
      \<and> map_of r ''t'' = Some (PyList [PyInt 1, PyInt 2])
      \<and> map_of r ''obs'' = Some (PyList [PyInt 3, PyInt 4])"
  using tree_transpose_dicts
          [of "[(''t'', PyInt 1), (''obs'', PyInt 3)]" "[[(''t'', PyInt 2), (''obs'', PyInt 4)]]"]
  by auto

section \<open>Properties of tracing under just-in-time compilation\<close>










text \<open>
  The cells that the notebook keeps commented out would raise, as their comments say:
  without a static argument the branch of \<open>f\<close> and the \<open>and\<close> of \<open>g\<close> convert an abstract
  value to \<open>bool\<close>. Without \<open>static_argnames='n'\<close> the loop bound of the last function
  would be abstract, and \<open>range\<close> would refuse it.
\<close>

lemma commented_cells_would_raise:
  "jit (f_branch A) x = Inl TracerBoolConversionError
   \<and> jit (g_and A) x = Inl TracerBoolConversionError"
  by (simp add: jit_def f_branch_def g_and_def)

lemma f_prefix_needs_static:
  "jit_array_traced (f_prefix A) xs n = Inl TracerIntegerConversionError"
  by (simp add: jit_array_traced_def f_prefix_def)

text \<open>
  The outputs recorded in the notebook, with exact arithmetic: \<open>24\<close>, \<open>6.0\<close>,
  \<open>[1. 4. 9.]\<close>, \<open>12.0\<close>, \<open>5.0\<close> and \<open>False\<close>.
\<close>

lemma notebook_output_control_flow:
  "jit (f_double exact_arith) 3 = Inr (Concrete 24)
   \<and> jit_array (g_sum exact_arith) [1, 2, 3] = Inr (Concrete 6)
   \<and> jit_array (f_square exact_arith) [1, 2, 3] = Inr [Concrete 1, Concrete 4, Concrete 9]
   \<and> jit_static (f_branch exact_arith) 2 = Inr (Concrete 12)
   \<and> jit_array_static (f_prefix exact_arith) [2, 3, 4] 2 = Inr (Concrete 5)
   \<and> jit (jax_check_positive_even exact_arith) 5 = Inr (Concrete False)"
  by (simp add: jit_def jit_array_def jit_static_def jit_array_static_def f_double_def g_sum_def
      f_square_def f_branch_def f_prefix_def jax_check_positive_even_def exact_arith_def
      get_item_def upt_rec numeral_nat)

section \<open>Properties of the notebooks as programs\<close>

lemmas auto_vectorization_cells =
  auto_vectorization_def auto_vectorization_cell0_def auto_vectorization_cell1_def
  auto_vectorization_cell2_def auto_vectorization_cell3_def auto_vectorization_cell4_def
  auto_vectorization_cell5_def auto_vectorization_cell6_def auto_vectorization_cell7_def

lemmas introduction_cells =
  introduction_def introduction_cell0_def introduction_cell1_def introduction_cell2_def
  introduction_cell3_def introduction_cell4_def introduction_cell5_def introduction_cell6_def
  introduction_cell7_def introduction_cell8_def introduction_cell9_def introduction_cell10_def
  introduction_cell11_def introduction_cell12_def introduction_cell13_def
  introduction_cell14_def introduction_cell15_def introduction_cell16_def
  introduction_cell17_def introduction_cell18_def introduction_cell19_def
  introduction_cell20_def introduction_cell21_def introduction_cell22_def
  introduction_cell23_def introduction_cell24_def introduction_cell25_def
  introduction_cell26_def

lemmas gradient_checkpoint_cells =
  gradient_checkpoint_def gradient_checkpoint_cell0_def gradient_checkpoint_cell1_def
  gradient_checkpoint_cell2_def gradient_checkpoint_cell3_def gradient_checkpoint_cell4_def
  gradient_checkpoint_cell5_def gradient_checkpoint_cell6_def gradient_checkpoint_cell7_def

lemmas pytrees_cells =
  pytrees_def pytrees_cell0_def pytrees_cell1_def pytrees_cell2_def pytrees_cell3_def
  pytrees_cell4_def pytrees_cell5_def pytrees_cell6_def pytrees_cell7_def pytrees_cell8_def
  pytrees_cell9_def pytrees_cell10_def pytrees_cell11_def pytrees_cell12_def pytrees_cell13_def
  pytrees_cell14_def pytrees_cell15_def pytrees_cell16_def pytrees_cell17_def pytrees_cell18_def

lemmas auto_differentiation_cells =
  auto_differentiation_def auto_differentiation_cell0_def auto_differentiation_cell1_def
  auto_differentiation_cell2_def auto_differentiation_cell3_def auto_differentiation_cell4_def
  auto_differentiation_cell5_def auto_differentiation_cell6_def auto_differentiation_cell7_def
  auto_differentiation_cell8_def auto_differentiation_cell9_def auto_differentiation_cell10_def
  auto_differentiation_cell11_def auto_differentiation_cell12_def

lemmas advanced_autodiff_cells =
  advanced_autodiff_def advanced_autodiff_cell0_def advanced_autodiff_cell1_def
  advanced_autodiff_cell2_def advanced_autodiff_cell3_def advanced_autodiff_cell4_def
  advanced_autodiff_cell5_def advanced_autodiff_cell6_def advanced_autodiff_cell7_def
  advanced_autodiff_cell8_def advanced_autodiff_cell9_def advanced_autodiff_cell10_def
  advanced_autodiff_cell11_def

lemmas control_flow_cells =
  control_flow_def control_flow_cell0_def control_flow_cell1_def control_flow_cell2_def
  control_flow_cell3_def control_flow_cell4_def control_flow_cell5_def control_flow_cell6_def
  control_flow_cell7_def control_flow_cell8_def control_flow_cell9_def control_flow_cell10_def
  control_flow_cell11_def control_flow_cell12_def control_flow_cell13_def
  control_flow_cell14_def control_flow_cell15_def control_flow_cell16_def
  control_flow_cell17_def control_flow_cell18_def control_flow_cell19_def
  control_flow_cell20_def control_flow_cell21_def


subsection \<open>Functions with control logic of their own\<close>






subsection \<open>Names that no cell defines\<close>

text \<open>
  Claim C2 holds of the cells with one exception, a defect of the notebook on
  differentiation through gradient updates (\<^verbatim>\<open>src/unnamed/part_000\<close>). Its third code
  cell defines \<open>meta_loss_fn\<close> and calls \<open>jax.grad(meta_loss_fn)(params, data)\<close>, and no
  cell of the notebook binds \<open>params\<close>, \<open>data\<close>, \<open>loss_fn\<close> or \<open>lr\<close>: run in order in a
  fresh interpreter, the cell raises \<open>NameError\<close> at \<open>params\<close>.
\<close>

theorem maml_cell_raises_name_error:
  "outcomes advanced_autodiff =
     [None, None, Some (NameError ''params''), None, None, None, None, None, None, None, None,
      None]"
  by (simp add: outcomes_def run_notebook_def advanced_autodiff_cells bind_def builtins_def
      note_read_def)

text \<open>
  In the other notebooks every name that a cell reads at its own level is bound when
  the cell runs (for the notebook on differentiation see \<open>auto_differentiation_run\<close>
  below).
\<close>

lemmas run_defs = outcomes_def run_notebook_def bind_def builtins_def note_read_def

lemma auto_vectorization_raises_nothing: "outcomes auto_vectorization = replicate 8 None"
  by (simp add: run_defs auto_vectorization_cells numeral_nat)

lemma introduction_raises_nothing: "outcomes introduction = replicate 27 None"
  by (simp add: run_defs introduction_cells numeral_nat)

lemma gradient_checkpoint_raises_nothing: "outcomes gradient_checkpoint = replicate 8 None"
  by (simp add: run_defs gradient_checkpoint_cells numeral_nat)

lemma pytrees_raises_nothing: "outcomes pytrees = replicate 19 None"
  by (simp add: run_defs pytrees_cells numeral_nat)

lemma control_flow_raises_nothing: "outcomes control_flow = replicate 22 None"
  by (simp add: run_defs control_flow_cells numeral_nat)

subsection \<open>Values that live across cells\<close>

text \<open>
  The run of the notebook on differentiation (\<^verbatim>\<open>src/auto_differentiation.ipynb\<close>): no
  cell raises, and the namespace and the reads across cells are as follows.
\<close>

lemma auto_differentiation_run:
  "run_notebook auto_differentiation =
     ([None, None, None, None, None, None, None, None, None, None, None, None, None],
      State
       [(''W_grad_numerical'', 11, Assigned), (''unitvec'', 11, Assigned),
        (''vec'', 11, Assigned), (''subkey'', 11, Assigned),
        (''key'', 11, Assigned), (''b_grad_numerical'', 11, Assigned),
        (''eps'', 11, Assigned), (''Wb_grad'', 10, Assigned),
        (''loss_value'', 10, Assigned), (''loss2'', 9, Defined),
        (''b_grad'', 8, Assigned), (''W_grad'', 8, Assigned),
        (''b_grad'', 8, Assigned), (''W_grad'', 8, Assigned),
        (''b'', 7, Assigned), (''W'', 7, Assigned), (''b_key'', 7, Assigned),
        (''W_key'', 7, Assigned), (''key'', 7, Assigned),
        (''loss'', 6, Defined), (''targets'', 5, Assigned),
        (''inputs'', 5, Assigned), (''predict'', 5, Defined),
        (''sigmoid'', 5, Defined), (''key'', 5, Assigned),
        (''d4fdx'', 4, Assigned), (''d3fdx'', 4, Assigned),
        (''d2fdx'', 4, Assigned), (''dfdx'', 3, Assigned), (''f'', 3, Defined),
        (''grad_tanh'', 1, Assigned), (''grad'', 0, Imported),
        (''jnp'', 0, Imported), (''jax'', 0, Imported)]
       [(4, ''dfdx'', 3), (4, ''dfdx'', 3), (7, ''key'', 5), (8, ''W'', 7),
        (8, ''b'', 7), (8, ''W'', 7), (8, ''b'', 7), (8, ''W'', 7),
        (8, ''b'', 7), (9, ''W'', 7), (9, ''b'', 7), (10, ''W'', 7),
        (10, ''b'', 7), (10, ''W'', 7), (10, ''b'', 7), (11, ''W'', 7),
        (11, ''b'', 7), (11, ''W'', 7), (11, ''b'', 7), (11, ''W'', 7),
        (11, ''b'', 7), (11, ''key'', 7), (11, ''W'', 7), (11, ''W'', 7),
        (11, ''b'', 7), (11, ''W'', 7), (11, ''b'', 7), (11, ''W'', 7),
        (11, ''b'', 7)])"
  by (simp add: run_notebook_def auto_differentiation_cells bind_def builtins_def note_read_def)

text \<open>
  Claim C6, as stated, that no later cell reads a value assigned in a cell: it fails in
  the notebook on differentiation. The code cell 7 (lines 177 to 180) assigns \<open>W\<close> and
  \<open>b\<close>; the code cells 8 (\<open>grad(loss)(W, b)\<close>) and 10
  (\<open>jax.value_and_grad(loss, (0,1))(W, b)\<close>) read them.
\<close>

theorem parameters_read_by_later_cells:
  "(8, ''W'', 7) \<in> set (cross_cell_reads auto_differentiation)
   \<and> (8, ''b'', 7) \<in> set (cross_cell_reads auto_differentiation)
   \<and> (10, ''W'', 7) \<in> set (cross_cell_reads auto_differentiation)
   \<and> (10, ''b'', 7) \<in> set (cross_cell_reads auto_differentiation)"
  by (simp add: cross_cell_reads_def auto_differentiation_run)

text \<open>
  Claim C6, amended: example data lives in the interpreter session of its notebook, not
  in a single cell. A value assigned in one cell stays bound for the later cells of the
  notebook, which read it: \<open>W\<close> and \<open>b\<close>, assigned in code cell 7 of the notebook on
  differentiation, are read by each of the code cells 8, 9, 10 and 11 and are still
  bound to the values of cell 7 when the last cell has run.
\<close>

theorem example_data_lives_across_cells:
  "cross_cell_reads auto_differentiation =
     [(4, ''dfdx'', 3), (7, ''key'', 5), (8, ''W'', 7), (8, ''b'', 7), (9, ''W'', 7),
      (9, ''b'', 7), (10, ''W'', 7), (10, ''b'', 7), (11, ''key'', 7), (11, ''W'', 7),
      (11, ''b'', 7)]
   \<and> map_of (env (snd (run_notebook auto_differentiation))) ''W'' = Some (7, Assigned)
   \<and> map_of (env (snd (run_notebook auto_differentiation))) ''b'' = Some (7, Assigned)"
  by (simp add: cross_cell_reads_def auto_differentiation_run)

subsection \<open>Transformations applied to the notebooks' own functions\<close>













subsection \<open>Conversions to \<open>bool\<close> and traced functions\<close>


text \<open>
  In the control-flow notebook every conversion is inside a function definition. The
  functions with a conversion, each with the names that the converted expressions
  mention: the \<open>f\<close> that is compiled with \<open>static_argnames='x'\<close>, the three ``Python
  equivalents'' of the structured control flow, which the notebook does not call, a
  function that a cell calls on the number \<open>2\<close>, and the \<open>f\<close> of the last cell, which is
  differentiated by \<open>grad\<close> and not traced.
\<close>

lemma branching_control_flow:
  "map (\<lambda>d. (def_name d, branch_names d))
       (filter (\<lambda>d. branch_names d \<noteq> []) (notebook_defs control_flow)) =
     [(''f'', [''x'']), (''cond'', [''pred'']), (''while_loop'', [''cond_fun'', ''val'']),
      (''python_check_positive_even'', [''is_even'', ''x'']), (''f'', [''x''])]"
  by (simp add: control_flow_cells notebook_defs_def branch_names_def)







end
